theory Spec2Isabelle
  imports Main
begin

section \<open>JavaScript values shared by the models\<close>

text \<open>
  A property of a JavaScript object is absent (\<open>undefined\<close>), \<open>null\<close>, or holds a
  value. The source tests \<open>typeof x === 'undefined'\<close>, \<open>x !== null\<close> and the
  truthiness \<open>!x\<close> separately, so the three cases are kept apart.
\<close>

datatype 'a js = Undefined | Null | Val 'a

text \<open>
  A thrown value. \<open>new Error(msg)\<close> is \<open>Error msg\<close>; calling a method on
  \<open>undefined\<close> or \<open>null\<close> throws a \<open>TypeError\<close>, which is an Error too; anything
  else that is thrown or that rejects a promise is \<open>NonError\<close>.
\<close>

datatype error = Error string | TypeError string | NonError string

text \<open>
  The three console channels the source writes to. Console texts are given without the
  emoji that start them in the source, and without interpolated values.
\<close>

datatype level = LOG | WARN | ERROR

section \<open>Cache construction options\<close>

text \<open>
  \<open>createCacheOptions\<close> is written out three times, once in each of
  WidgetCache.ts, WidgetTypeCache.ts and WidgetComponentCache.ts. Each module passes
  its result once to \<open>createCache\<close> when the module is evaluated.
\<close>

datatype cacheType_lit = indexedDB

datatype eviction_lit = lru

record indexedDBConfig =
  dbName :: string
  version :: nat
  storeName :: string

record evictionConfig =
  eviction_type :: eviction_lit

record twoLayer =
  itemTTL :: nat
  queryTTL :: nat
  facetTTL :: nat
  debug :: bool

record cache_options =
  cacheType :: cacheType_lit
  indexedDBConfig :: indexedDBConfig
  enableDebugLogging :: bool
  autoSync :: bool
  maxRetries :: nat
  retryDelay :: nat
  ttl :: nat
  evictionConfig :: evictionConfig
  twoLayer :: twoLayer

definition WidgetCache_createCacheOptions :: "string \<Rightarrow> string \<Rightarrow> cache_options" where
  "WidgetCache_createCacheOptions db store =
     \<lparr> cacheType = indexedDB,
       indexedDBConfig = \<lparr> dbName = db, version = 1, storeName = store \<rparr>,
       enableDebugLogging = True,
       autoSync = True,
       maxRetries = 5,
       retryDelay = 2000,
       ttl = 900000,
       evictionConfig = \<lparr> eviction_type = lru \<rparr>,
       twoLayer = \<lparr> itemTTL = 900, queryTTL = 300, facetTTL = 60, debug = True \<rparr> \<rparr>"

definition WidgetTypeCache_createCacheOptions :: "string \<Rightarrow> string \<Rightarrow> cache_options" where
  "WidgetTypeCache_createCacheOptions db store =
     \<lparr> cacheType = indexedDB,
       indexedDBConfig = \<lparr> dbName = db, version = 1, storeName = store \<rparr>,
       enableDebugLogging = True,
       autoSync = True,
       maxRetries = 5,
       retryDelay = 2000,
       ttl = 900000,
       evictionConfig = \<lparr> eviction_type = lru \<rparr>,
       twoLayer = \<lparr> itemTTL = 900, queryTTL = 300, facetTTL = 60, debug = True \<rparr> \<rparr>"

definition WidgetComponentCache_createCacheOptions :: "string \<Rightarrow> string \<Rightarrow> cache_options" where
  "WidgetComponentCache_createCacheOptions db store =
     \<lparr> cacheType = indexedDB,
       indexedDBConfig = \<lparr> dbName = db, version = 1, storeName = store \<rparr>,
       enableDebugLogging = True,
       autoSync = True,
       maxRetries = 5,
       retryDelay = 2000,
       ttl = 900000,
       evictionConfig = \<lparr> eviction_type = lru \<rparr>,
       twoLayer = \<lparr> itemTTL = 900, queryTTL = 300, facetTTL = 60, debug = True \<rparr> \<rparr>"

text \<open>The options each module hands to \<open>createCache\<close>.\<close>

definition widgetCache_options :: cache_options where
  "widgetCache_options = WidgetCache_createCacheOptions ''WidgetAppCache_Widgets'' ''widgets''"

definition widgetTypeCache_options :: cache_options where
  "widgetTypeCache_options =
     WidgetTypeCache_createCacheOptions ''WidgetAppCache_WidgetTypes'' ''widgetTypes''"

definition widgetComponentCache_options :: cache_options where
  "widgetComponentCache_options =
     WidgetComponentCache_createCacheOptions ''FjellTestCache_Components'' ''widget_components''"

text \<open>The ordering the configuration surface asks of the three freshness windows.\<close>

definition ttl_ordered :: "twoLayer \<Rightarrow> bool" where
  "ttl_ordered t = (facetTTL t \<le> queryTTL t \<and> queryTTL t \<le> itemTTL t)"

section \<open>Cache statistics\<close>

text \<open>
  \<open>getCacheStats\<close> reads two things from a cache map: the result of
  \<open>getCurrentSize()\<close> and, when the property \<open>getTwoLayerStats\<close> is present and is a
  function, the result of calling it. The cache map is the library's object; its
  answers are the inputs of the model.
\<close>

record size_info =
  itemCount :: nat
  sizeBytes :: nat

record queryMetadata =
  complete :: nat
  partial :: nat

record two_layer_stats =
  queryMetadata :: queryMetadata

text \<open>
  A property that may hold a function: absent (\<open>'getTwoLayerStats' in cacheMap\<close> is
  false), present with a value that is not a function, or a function, given by what
  the call returns.
\<close>

datatype 'a method_prop = Absent | NotAFunction | Function 'a

record stats_source =
  getCurrentSize :: size_info
  getTwoLayerStats :: "two_layer_stats method_prop"

record cache_stats =
  stat_itemCount :: nat
  stat_queryCount :: nat
  stat_facetCount :: nat

definition widgetCacheUtils_getCacheStats :: "stats_source \<Rightarrow> cache_stats" where
  "widgetCacheUtils_getCacheStats cacheMap =
     (let sizeInfo = getCurrentSize cacheMap;
          (queryCount, facetCount) =
            (case getTwoLayerStats cacheMap of
               Function twoLayerStats \<Rightarrow>
                 (complete (queryMetadata twoLayerStats), partial (queryMetadata twoLayerStats))
             | _ \<Rightarrow> (0, 0))
      in \<lparr> stat_itemCount = itemCount sizeInfo,
           stat_queryCount = queryCount,
           stat_facetCount = facetCount \<rparr>)"

definition widgetTypeCacheUtils_getCacheStats :: "stats_source \<Rightarrow> cache_stats" where
  "widgetTypeCacheUtils_getCacheStats cacheMap =
     (let sizeInfo = getCurrentSize cacheMap;
          (queryCount, facetCount) =
            (case getTwoLayerStats cacheMap of
               Function twoLayerStats \<Rightarrow>
                 (complete (queryMetadata twoLayerStats), partial (queryMetadata twoLayerStats))
             | _ \<Rightarrow> (0, 0))
      in \<lparr> stat_itemCount = itemCount sizeInfo,
           stat_queryCount = queryCount,
           stat_facetCount = facetCount \<rparr>)"

definition widgetComponentCacheUtils_getCacheStats :: "stats_source \<Rightarrow> cache_stats" where
  "widgetComponentCacheUtils_getCacheStats cacheMap =
     (let sizeInfo = getCurrentSize cacheMap;
          (queryCount, facetCount) =
            (case getTwoLayerStats cacheMap of
               Function twoLayerStats \<Rightarrow>
                 (complete (queryMetadata twoLayerStats), partial (queryMetadata twoLayerStats))
             | _ \<Rightarrow> (0, 0))
      in \<lparr> stat_itemCount = itemCount sizeInfo,
           stat_queryCount = queryCount,
           stat_facetCount = facetCount \<rparr>)"

section \<open>Cross-cache invalidation (client/cache/index.ts)\<close>

text \<open>
  The event a cache hands to its subscribers. The type is a string in the source; the
  three item events are the ones the handlers look for, and every other type a cache
  may emit is \<open>other_event\<close>. The item may be missing, and so may its id.
\<close>

datatype event_type = item_created | item_updated | item_removed | other_event string

record item =
  item_id :: "string js"

record cache_event =
  event_type :: event_type
  event_item :: "item js"

fun type_text :: "event_type \<Rightarrow> string" where
  "type_text item_created = ''item_created''"
| "type_text item_updated = ''item_updated''"
| "type_text item_removed = ''item_removed''"
| "type_text (other_event s) = s"

text \<open>\<open>event.item?.id\<close>: undefined when the item is undefined or null.\<close>

definition event_item_id :: "cache_event \<Rightarrow> string js" where
  "event_item_id event = (case event_item event of Val i \<Rightarrow> item_id i | _ \<Rightarrow> Undefined)"

text \<open>Truthiness of a string-valued property: present and not the empty string.\<close>

fun truthy :: "string js \<Rightarrow> bool" where
  "truthy (Val s) = (s \<noteq> [])"
| "truthy _ = False"

text \<open>Which of the three entity-type caches.\<close>

datatype cache_name = widgetCache | widgetTypeCache | widgetComponentCache

text \<open>
  What a handler does, in order: a console line (channel, text, the id passed as the
  second argument) or a call of \<open>clearQueryResults()\<close> on the cache map of the named
  cache.
\<close>

datatype effect = Console level string "string js" | ClearQueryResults cache_name

text \<open>The first subscriber of the widget cache (logging only).\<close>

definition widgetCache_subscriber_log :: "cache_event \<Rightarrow> effect list" where
  "widgetCache_subscriber_log event =
     (if event_type event = item_created \<or> event_type event = item_updated
         \<or> event_type event = item_removed
      then [Console LOG (''Widget '' @ type_text (event_type event) @ '' detected:'')
              (event_item_id event)]
      else [])"

text \<open>The subscriber of the widgetType cache.\<close>

definition widgetTypeCache_subscriber :: "cache_event \<Rightarrow> effect list" where
  "widgetTypeCache_subscriber event =
     (if event_type event = item_created \<or> event_type event = item_updated
         \<or> event_type event = item_removed
      then [Console LOG (''WidgetType '' @ type_text (event_type event) @ '' detected:'')
              (event_item_id event)]
           @ (if event_type event = item_removed \<and> truthy (event_item_id event)
              then [ClearQueryResults widgetCache]
              else [])
      else [])"

text \<open>The second subscriber of the widget cache (component invalidation).\<close>

definition widgetCache_subscriber_components :: "cache_event \<Rightarrow> effect list" where
  "widgetCache_subscriber_components event =
     (if event_type event = item_removed \<and> truthy (event_item_id event)
      then [Console LOG ''Widget removed, invalidating related components:''
              (event_item_id event),
            ClearQueryResults widgetComponentCache]
      else [])"

text \<open>The subscriber of the widgetComponent cache (logging only).\<close>

definition widgetComponentCache_subscriber :: "cache_event \<Rightarrow> effect list" where
  "widgetComponentCache_subscriber event =
     (if event_type event = item_created \<or> event_type event = item_updated
         \<or> event_type event = item_removed
      then [Console LOG (''WidgetComponent '' @ type_text (event_type event) @ '' detected:'')
              (event_item_id event)]
      else [])"

text \<open>
  The subscribers of each cache, in the order index.ts registers them. The event bus
  belongs to the cache library; it calls the subscribers synchronously in subscription
  order, which is what \<open>emit\<close> does.
\<close>

fun subscribers :: "cache_name \<Rightarrow> (cache_event \<Rightarrow> effect list) list" where
  "subscribers widgetCache = [widgetCache_subscriber_log, widgetCache_subscriber_components]"
| "subscribers widgetTypeCache = [widgetTypeCache_subscriber]"
| "subscribers widgetComponentCache = [widgetComponentCache_subscriber]"

definition emit :: "cache_name \<Rightarrow> cache_event \<Rightarrow> effect list" where
  "emit source event = concat (map (\<lambda>handler. handler event) (subscribers source))"

text \<open>What can be observed of the effects of a delivery.\<close>

definition clears :: "cache_name \<Rightarrow> effect list \<Rightarrow> bool" where
  "clears c es = (ClearQueryResults c \<in> set es)"

definition applies_rule :: "effect list \<Rightarrow> bool" where
  "applies_rule es = (clears widgetCache es \<or> clears widgetTypeCache es \<or> clears widgetComponentCache es)"

fun on_channel :: "level \<Rightarrow> effect \<Rightarrow> bool" where
  "on_channel l (Console l' text arg) = (l = l')"
| "on_channel l (ClearQueryResults c) = False"

definition logs :: "level \<Rightarrow> effect list \<Rightarrow> bool" where
  "logs l es = list_ex (on_channel l) es"

subsection \<open>The cache map the handlers act on\<close>

text \<open>
  Modelled from the spec: the cache map of the cache library (not part of this
  repository's sources), as far as the coordinator touches it. It holds an item
  partition, a partition of complete query results and a partition of partial (facet)
  results, the last two keyed by query signature and location scope; every entry has a
  freshness stamp. \<open>clearQueryResults\<close> wipes the query and facet partitions and leaves
  the items. \<open>queryIn\<close> answers from a stored entry only if the entry has not outlived
  the TTL of its class and every key it lists still has an item; otherwise it answers
  null, a cache miss.
\<close>

type_synonym location = "(string \<times> string) list"

record query_result =
  result_keys :: "string list"
  result_stamp :: nat

record cacheMap =
  itemPartition :: "string \<rightharpoonup> nat"
  queryPartition :: "string \<times> location \<rightharpoonup> query_result"
  facetPartition :: "string \<times> location \<rightharpoonup> query_result"

definition clearQueryResults :: "cacheMap \<Rightarrow> cacheMap" where
  "clearQueryResults m = m \<lparr> queryPartition := Map.empty, facetPartition := Map.empty \<rparr>"

definition entry_valid :: "cacheMap \<Rightarrow> nat \<Rightarrow> nat \<Rightarrow> query_result \<Rightarrow> bool" where
  "entry_valid m window now r =
     (now < result_stamp r + window \<and> list_all (\<lambda>k. itemPartition m k \<noteq> None) (result_keys r))"

definition queryIn :: "twoLayer \<Rightarrow> nat \<Rightarrow> cacheMap \<Rightarrow> string \<Rightarrow> location \<Rightarrow> string list option" where
  "queryIn opts now m signature scope =
     (case queryPartition m (signature, scope) of
        Some r \<Rightarrow> if entry_valid m (queryTTL opts) now r then Some (result_keys r) else None
      | None \<Rightarrow>
         (case facetPartition m (signature, scope) of
            Some r \<Rightarrow> if entry_valid m (facetTTL opts) now r then Some (result_keys r) else None
          | None \<Rightarrow> None))"

text \<open>The three cache maps of the application, and the console.\<close>

record caches =
  cacheMap_of :: "cache_name \<Rightarrow> cacheMap"
  console :: "(level \<times> string \<times> string js) list"

fun perform :: "effect \<Rightarrow> caches \<Rightarrow> caches" where
  "perform (Console l text arg) s = s \<lparr> console := console s @ [(l, text, arg)] \<rparr>"
| "perform (ClearQueryResults c) s =
     s \<lparr> cacheMap_of := (cacheMap_of s) (c := clearQueryResults (cacheMap_of s c)) \<rparr>"

definition perform_all :: "effect list \<Rightarrow> caches \<Rightarrow> caches" where
  "perform_all es s = fold perform es s"

text \<open>A widget cache holding one item and one cached listing, for the examples.\<close>

definition example_map :: cacheMap where
  "example_map =
     \<lparr> itemPartition = [''c1'' \<mapsto> 100],
       queryPartition = Map.empty,
       facetPartition = [(''byWidget'', [(''widget'', ''w1'')]) \<mapsto>
                           \<lparr> result_keys = [''c1''], result_stamp = 100 \<rparr>] \<rparr>"

definition example_caches :: caches where
  "example_caches = \<lparr> cacheMap_of = (\<lambda>c. example_map), console = [] \<rparr>"

definition removed_event :: "string \<Rightarrow> cache_event" where
  "removed_event i = \<lparr> event_type = item_removed, event_item = Val \<lparr> item_id = Val i \<rparr> \<rparr>"

section \<open>Server-side libraries (lib/WidgetLib.ts, lib/WidgetComponentLib.ts)\<close>

subsection \<open>String.prototype.trim\<close>

text \<open>
  Strings are lists of 8-bit characters, read as code units below 256. In that range
  JavaScript's white space and line terminators are tab, line feed, vertical tab, form
  feed, carriage return, space and no-break space; \<open>trim\<close> removes them from both ends.
  (The white space code points above 255 do not occur in such strings.)
\<close>

definition is_space :: "char \<Rightarrow> bool" where
  "is_space c = (c = CHR 0x09 \<or> c = CHR 0x0A \<or> c = CHR 0x0B \<or> c = CHR 0x0C
                 \<or> c = CHR 0x0D \<or> c = CHR 0x20 \<or> c = CHR 0xA0)"

definition trim :: "string \<Rightarrow> string" where
  "trim s = rev (dropWhile is_space (rev (dropWhile is_space s)))"

subsection \<open>Widget library\<close>

text \<open>
  The properties a caller passes to create a widget. \<open>data\<close> is any JSON-like value;
  all the validator asks of it is whether \<open>JSON.stringify\<close> throws on it.
\<close>

datatype data_value = Serializable | Unserializable

record widget_props =
  widget_widgetTypeId :: "string js"
  widget_name :: "string js"
  widget_description :: "string js"
  widget_isActive :: "bool js"
  widget_data :: "data_value js"

text \<open>A row of the widget type model, as far as the validator reads it.\<close>

record widgetType_row =
  wt_code :: string
  wt_isActive :: bool

text \<open>
  \<open>validators.onCreate\<close> of the widget library. \<open>findByPk\<close> is the awaited lookup
  \<open>widgetTypeModel.findByPk\<close>: it fails, or returns the row or null. The validator
  returns \<open>true\<close> or throws.
\<close>

definition Widget_onCreate ::
  "(string \<Rightarrow> error + widgetType_row option) \<Rightarrow> widget_props \<Rightarrow> error + bool" where
  "Widget_onCreate findByPk widget =
     (case widget_widgetTypeId widget of
        Val tid \<Rightarrow>
          if tid = [] \<or> length (trim tid) = 0 then Inl (Error ''Widget type ID is required'')
          else
            (case findByPk tid of
               Inl e \<Rightarrow> Inl e
             | Inr None \<Rightarrow> Inl (Error (''Widget type with ID '' @ tid @ '' does not exist''))
             | Inr (Some widgetType) \<Rightarrow>
                 if \<not> wt_isActive widgetType
                 then Inl (Error (''Widget type '' @ wt_code widgetType @ '' is not active''))
                 else
                   (case widget_name widget of
                      Val n \<Rightarrow>
                        if n = [] \<or> length (trim n) = 0
                        then Inl (Error ''Widget name is required'')
                        else if length n > 255
                        then Inl (Error ''Widget name must be 255 characters or less'')
                        else
                          (case widget_data widget of
                             Val Unserializable \<Rightarrow>
                               Inl (Error ''Widget data must be a valid JSON object'')
                           | _ \<Rightarrow> Inr True)
                    | _ \<Rightarrow> Inl (Error ''Widget name is required'')))
      | _ \<Rightarrow> Inl (Error ''Widget type ID is required''))"

text \<open>
  \<open>hooks.preCreate\<close> of the widget library. \<open>widget.name.trim()\<close> throws a TypeError
  when the name is undefined or null. (The call of the logger before it is left out.)
\<close>

definition Widget_preCreate :: "widget_props \<Rightarrow> error + widget_props" where
  "Widget_preCreate widget =
     (case widget_name widget of
        Val n \<Rightarrow>
          Inr (widget \<lparr> widget_name := Val (trim n),
                        widget_isActive :=
                          (if widget_isActive widget = Undefined then Val True
                           else widget_isActive widget) \<rparr>)
      | _ \<Rightarrow> Inl (TypeError ''Cannot read properties of undefined (reading trim)''))"

subsection \<open>Widget component library\<close>

record component_props =
  component_widgetId :: "string js"
  component_componentTypeId :: "string js"
  component_name :: "string js"
  component_status :: "string js"
  component_priority :: "int js"
  component_config :: "data_value js"

text \<open>\<open>hooks.preCreate\<close> of the widget component library.\<close>

definition WidgetComponent_preCreate :: "component_props \<Rightarrow> error + component_props" where
  "WidgetComponent_preCreate component =
     (case component_name component of
        Val n \<Rightarrow>
          Inr (component \<lparr> component_name := Val (trim n),
                           component_status :=
                             (if component_status component = Undefined then Val ''pending''
                              else component_status component),
                           component_priority :=
                             (if component_priority component = Undefined then Val 0
                              else component_priority component) \<rparr>)
      | _ \<Rightarrow> Inl (TypeError ''Cannot read properties of undefined (reading trim)''))"

subsection \<open>The create operation around the validator\<close>

text \<open>
  Modelled from the spec: the create operation of the library that calls the
  validator (the library is not part of this repository's sources). It validates by
  the caller-supplied rules and, only when they accept, calls the remote create; a
  rejection is returned to the caller. The remote create, which is where the database
  is written, is a parameter.
\<close>

record database =
  widgetTypes :: "string \<rightharpoonup> widgetType_row"
  widgets :: "widget_props list"

definition findByPk_in :: "database \<Rightarrow> string \<Rightarrow> error + widgetType_row option" where
  "findByPk_in db pk = Inr (widgetTypes db pk)"

definition create_widget ::
  "(widget_props \<Rightarrow> database \<Rightarrow> (error + widget_props) \<times> database)
    \<Rightarrow> database \<Rightarrow> widget_props \<Rightarrow> (error + widget_props) \<times> database" where
  "create_widget remote_create db properties =
     (case Widget_onCreate (findByPk_in db) properties of
        Inl e \<Rightarrow> (Inl e, db)
      | Inr ok \<Rightarrow> remote_create properties db)"

text \<open>A remote create for the examples: the preCreate hook, then the row is appended.\<close>

definition insert_widget :: "widget_props \<Rightarrow> database \<Rightarrow> (error + widget_props) \<times> database" where
  "insert_widget properties db =
     (case Widget_preCreate properties of
        Inl e \<Rightarrow> (Inl e, db)
      | Inr widget \<Rightarrow> (Inr widget, db \<lparr> widgets := widgets db @ [widget] \<rparr>))"

text \<open>Inputs for the examples.\<close>

definition example_db :: database where
  "example_db =
     \<lparr> widgetTypes = [''t1'' \<mapsto> \<lparr> wt_code = ''BUTTON'', wt_isActive = True \<rparr>,
                      ''t2'' \<mapsto> \<lparr> wt_code = ''GAUGE'', wt_isActive = False \<rparr>],
       widgets = [] \<rparr>"

definition example_widget :: "string js \<Rightarrow> string js \<Rightarrow> widget_props" where
  "example_widget tid n =
     \<lparr> widget_widgetTypeId = tid, widget_name = n, widget_description = Undefined,
       widget_isActive = Undefined, widget_data = Undefined \<rparr>"

definition example_component :: "string js \<Rightarrow> component_props" where
  "example_component n =
     \<lparr> component_widgetId = Val ''w1'', component_componentTypeId = Val ''TYPE-A'',
       component_name = n, component_status = Undefined, component_priority = Undefined,
       component_config = Undefined \<rparr>"

section \<open>Lazy cache initialization (client/cache/ClientCache.ts)\<close>

text \<open>
  The module keeps five variables: the three cache instances (null until loaded), the
  flag \<open>_isInitializing\<close> and the memoized promise \<open>_initPromise\<close>; here they are the
  fields \<open>m_widgetCache\<close>, \<open>m_widgetTypeCache\<close>, \<open>m_widgetComponentCache\<close>,
  \<open>m_isInitializing\<close> and \<open>m_initPromise\<close>. A cache instance is named by the
  \<open>cache_name\<close> of the module that exports it. The rest of the state is the run-time
  around the module: the promises created so far (a promise is its index in the list),
  the bodies of \<open>initializeCaches\<close> suspended at an \<open>await import(...)\<close>, each under
  the promise it will settle, the console output, and the cache instances constructed so
  far, in the order of their construction.
\<close>

datatype promise_state = Pending | Fulfilled | Rejected error

datatype stage = AwaitWidgetCache | AwaitWidgetTypeCache | AwaitWidgetComponentCache

record module_state =
  m_widgetCache :: "cache_name option"
  m_widgetTypeCache :: "cache_name option"
  m_widgetComponentCache :: "cache_name option"
  m_isInitializing :: bool
  m_initPromise :: "nat option"
  promises :: "promise_state list"
  suspended :: "nat \<rightharpoonup> stage"
  printed :: "(level \<times> string) list"
  constructed :: "cache_name list"

definition initial_state :: module_state where
  "initial_state =
     \<lparr> m_widgetCache = None, m_widgetTypeCache = None, m_widgetComponentCache = None,
       m_isInitializing = False, m_initPromise = None,
       promises = [], suspended = Map.empty, printed = [], constructed = [] \<rparr>"

definition all_loaded :: "module_state \<Rightarrow> bool" where
  "all_loaded s = (m_widgetCache s \<noteq> None \<and> m_widgetTypeCache s \<noteq> None
                   \<and> m_widgetComponentCache s \<noteq> None)"

definition in_flight :: "module_state \<Rightarrow> bool" where
  "in_flight s = (suspended s \<noteq> Map.empty)"

text \<open>
  What a call of \<open>initializeCaches\<close> does before it first waits: it starts the
  initialization under a new promise and awaits that promise, or it awaits the promise
  already memoized, or (guard true, no promise memoized) it returns at once.
\<close>

datatype call_result = Starts nat | Awaits nat | ReturnsAtOnce

text \<open>
  \<open>initializeCaches\<close>, up to its first suspension. \<open>browser\<close> is
  \<open>typeof window !== 'undefined'\<close>. Outside a browser the body throws before any
  \<open>await\<close>, so its catch and finally blocks run inside the call that creates the
  promise: they reset the flag and set \<open>_initPromise\<close> to null, and then the
  assignment stores the promise the body returned, which is rejected. In a browser the
  body runs up to the first \<open>await import(...)\<close> and is suspended there.
\<close>

definition initializeCaches :: "bool \<Rightarrow> module_state \<Rightarrow> call_result \<times> module_state" where
  "initializeCaches browser s =
     (if m_isInitializing s \<or> all_loaded s
      then (case m_initPromise s of Some p \<Rightarrow> (Awaits p, s) | None \<Rightarrow> (ReturnsAtOnce, s))
      else
        (let p = length (promises s);
             s1 = s \<lparr> m_isInitializing := True,
                      printed := printed s @ [(LOG, ''Starting cache initialization...'')] \<rparr>
         in if \<not> browser
            then (Starts p,
                  s1 \<lparr> printed := printed s1 @ [(ERROR, ''Failed to initialize caches:'')],
                       m_isInitializing := False,
                       m_initPromise := None,
                       promises := promises s1 @
                         [Rejected (Error ''Caches can only be initialized in browser environment'')],
                       m_initPromise := Some p \<rparr>)
            else (Starts p,
                  s1 \<lparr> printed := printed s1 @ [(LOG, ''Loading WidgetCache module...'')],
                       promises := promises s1 @ [Pending],
                       suspended := (suspended s1) (p \<mapsto> AwaitWidgetCache),
                       m_initPromise := Some p \<rparr>)))"

text \<open>
  Each cache module constructs its instance at its top level
  (\<open>export const widgetCache = createCache(...)\<close>). The run-time evaluates a module
  when an import of it first resolves and hands the same module to every later import,
  so an import that resolves constructs the instance only if the module was not
  evaluated before.
\<close>

definition evaluate :: "cache_name \<Rightarrow> cache_name list \<Rightarrow> cache_name list" where
  "evaluate c done = (if c \<in> set done then done else done @ [c])"

text \<open>
  The body under promise \<open>p\<close> resumes after its awaited import has resolved. After the
  third import the body ends: the finally block resets the flag and the promise is
  fulfilled.
\<close>

fun resume :: "nat \<Rightarrow> stage \<Rightarrow> module_state \<Rightarrow> module_state" where
  "resume p AwaitWidgetCache s =
     s \<lparr> constructed := evaluate widgetCache (constructed s),
         m_widgetCache := Some widgetCache,
         printed := printed s @ [(LOG, ''Widget cache loaded''),
                               (LOG, ''Loading WidgetTypeCache module...'')],
         suspended := (suspended s) (p \<mapsto> AwaitWidgetTypeCache) \<rparr>"
| "resume p AwaitWidgetTypeCache s =
     s \<lparr> constructed := evaluate widgetTypeCache (constructed s),
         m_widgetTypeCache := Some widgetTypeCache,
         printed := printed s @ [(LOG, ''Widget type cache loaded''),
                               (LOG, ''Loading WidgetComponentCache module...'')],
         suspended := (suspended s) (p \<mapsto> AwaitWidgetComponentCache) \<rparr>"
| "resume p AwaitWidgetComponentCache s =
     s \<lparr> constructed := evaluate widgetComponentCache (constructed s),
         m_widgetComponentCache := Some widgetComponentCache,
         printed := printed s @ [(LOG, ''Widget component cache loaded''),
                               (LOG, ''All caches initialized successfully'')],
         m_isInitializing := False,
         promises := (promises s) [p := Fulfilled],
         suspended := (suspended s) (p := None) \<rparr>"

text \<open>
  The awaited import of the body under promise \<open>p\<close> has rejected with \<open>e\<close>: the catch
  block logs, resets the flag and the memoized promise and rethrows; the finally block
  resets the flag again; the promise is rejected.
\<close>

definition abort :: "nat \<Rightarrow> error \<Rightarrow> module_state \<Rightarrow> module_state" where
  "abort p e s =
     s \<lparr> printed := printed s @ [(ERROR, ''Failed to initialize caches:'')],
         m_isInitializing := False,
         m_initPromise := None,
         promises := (promises s) [p := Rejected e],
         suspended := (suspended s) (p := None) \<rparr>"

text \<open>
  What can happen next on the event loop: some caller invokes \<open>initializeCaches\<close>
  (the component at startup, or one of the asynchronous getters that finds its variable
  null), or the import awaited by the body under promise \<open>p\<close> resolves or rejects. An
  import event for a promise with no suspended body changes nothing.
\<close>

datatype action = Call | ImportResolves nat | ImportRejects nat error

fun step :: "bool \<Rightarrow> action \<Rightarrow> module_state \<Rightarrow> module_state" where
  "step browser Call s = snd (initializeCaches browser s)"
| "step browser (ImportResolves p) s =
     (case suspended s p of Some st \<Rightarrow> resume p st s | None \<Rightarrow> s)"
| "step browser (ImportRejects p e) s =
     (case suspended s p of Some st \<Rightarrow> abort p e s | None \<Rightarrow> s)"

definition run :: "bool \<Rightarrow> action list \<Rightarrow> module_state \<Rightarrow> module_state" where
  "run browser acts s = fold (step browser) acts s"

inductive reachable :: "bool \<Rightarrow> module_state \<Rightarrow> bool" for browser :: bool where
  at_start: "reachable browser initial_state"
| after_step: "reachable browser s \<Longrightarrow> reachable browser (step browser a s)"

text \<open>How often a line was written to the console.\<close>

definition written :: "level \<Rightarrow> string \<Rightarrow> module_state \<Rightarrow> nat" where
  "written l text s = count_list (printed s) (l, text)"

definition starts :: "module_state \<Rightarrow> nat" where
  "starts s = written LOG ''Starting cache initialization...'' s"

definition failures :: "module_state \<Rightarrow> nat" where
  "failures s = written ERROR ''Failed to initialize caches:'' s"

definition successes :: "module_state \<Rightarrow> nat" where
  "successes s = written LOG ''All caches initialized successfully'' s"

subsection \<open>The synchronous accessors\<close>

text \<open>
  Each accessor throws when its variable is null and returns the instance otherwise.
  The accessors for the widget type cache and the widget component cache write an
  error line to the console before they throw.
\<close>

definition getWidgetCacheSync :: "module_state \<Rightarrow> (error + cache_name) \<times> module_state" where
  "getWidgetCacheSync s =
     (case m_widgetCache s of
        None \<Rightarrow> (Inl (Error ''Widget cache not yet initialized. Call initializeCaches() first.''), s)
      | Some c \<Rightarrow> (Inr c, s))"

definition getWidgetTypeCacheSync :: "module_state \<Rightarrow> (error + cache_name) \<times> module_state" where
  "getWidgetTypeCacheSync s =
     (case m_widgetTypeCache s of
        None \<Rightarrow>
          (Inl (Error ''Widget type cache not yet initialized. Call initializeCaches() first.''),
           s \<lparr> printed := printed s @
                 [(ERROR, ''Widget type cache not initialized! Call initializeCaches() first.'')] \<rparr>)
      | Some c \<Rightarrow> (Inr c, s))"

definition getWidgetComponentCacheSync :: "module_state \<Rightarrow> (error + cache_name) \<times> module_state" where
  "getWidgetComponentCacheSync s =
     (case m_widgetComponentCache s of
        None \<Rightarrow>
          (Inl (Error ''Widget component cache not yet initialized. Call initializeCaches() first.''),
           s \<lparr> printed := printed s @
                 [(ERROR, ''Widget component cache not initialized! Call initializeCaches() first.'')] \<rparr>)
      | Some c \<Rightarrow> (Inr c, s))"

subsection \<open>Invariant of the initialization\<close>

text \<open>What a body suspended at a stage has already stored.\<close>

fun stage_ok :: "module_state \<Rightarrow> stage \<Rightarrow> bool" where
  "stage_ok s AwaitWidgetCache = True"
| "stage_ok s AwaitWidgetTypeCache = (m_widgetCache s \<noteq> None)"
| "stage_ok s AwaitWidgetComponentCache =
     (m_widgetCache s \<noteq> None \<and> m_widgetTypeCache s \<noteq> None)"

text \<open>
  A suspended body runs under the memoized promise, which is pending, with the flag
  set; the flag is set only while a body is suspended; the component cache is stored
  only by a body that ran to its end, after which all three are stored, nothing is
  suspended and the memoized promise is fulfilled.
\<close>

definition inv :: "module_state \<Rightarrow> bool" where
  "inv s =
     ((\<forall>p st. suspended s p = Some st \<longrightarrow>
          m_isInitializing s \<and> m_initPromise s = Some p \<and> p < length (promises s)
          \<and> promises s ! p = Pending \<and> stage_ok s st)
      \<and> (m_isInitializing s \<longrightarrow> in_flight s)
      \<and> (m_widgetComponentCache s \<noteq> None \<longrightarrow>
            all_loaded s \<and> \<not> in_flight s
            \<and> (\<exists>p. m_initPromise s = Some p \<and> p < length (promises s)
                   \<and> promises s ! p = Fulfilled)))"

text \<open>1 if the condition holds, else 0.\<close>

definition ind :: "bool \<Rightarrow> nat" where
  "ind b = (if b then 1 else 0)"

text \<open>
  Every start of the initialization is accounted for: it failed, it succeeded, or it
  is the one in flight; and a success is the state in which all three are stored.
\<close>

definition counted :: "module_state \<Rightarrow> bool" where
  "counted s =
     (starts s = failures s + successes s + ind (in_flight s)
      \<and> successes s = ind (m_widgetComponentCache s \<noteq> None)
      \<and> written LOG ''Widget cache loaded'' s
          + ind (\<exists>p. suspended s p = Some AwaitWidgetCache) \<le> starts s
      \<and> written LOG ''Widget type cache loaded'' s
          + ind (\<exists>p. suspended s p = Some AwaitWidgetCache
                    \<or> suspended s p = Some AwaitWidgetTypeCache) \<le> starts s
      \<and> written LOG ''Widget component cache loaded'' s + ind (in_flight s) \<le> starts s)"

text \<open>
  A variable holds an instance exactly when the initialization has printed that it
  loaded it, and then it holds the instance of its own module.
\<close>

definition populated :: "module_state \<Rightarrow> bool" where
  "populated s =
     ((m_widgetCache s = None \<or> m_widgetCache s = Some widgetCache)
      \<and> (m_widgetTypeCache s = None \<or> m_widgetTypeCache s = Some widgetTypeCache)
      \<and> (m_widgetComponentCache s = None \<or> m_widgetComponentCache s = Some widgetComponentCache)
      \<and> (m_widgetCache s = None) = (written LOG ''Widget cache loaded'' s = 0)
      \<and> (m_widgetTypeCache s = None) = (written LOG ''Widget type cache loaded'' s = 0)
      \<and> (m_widgetComponentCache s = None)
          = (written LOG ''Widget component cache loaded'' s = 0))"

section \<open>Application startup (client/providers/CacheInitializer.tsx)\<close>

text \<open>
  What the component waits for comes from outside it. An awaited call resolves,
  rejects or never settles. The IndexedDB initialization promises of the cache maps are
  raced against a timer, so for them the time of settling matters too: milliseconds
  counted from the start of the race.
\<close>

datatype 'a settles = Resolves 'a | Rejects error | Never

datatype timed = ResolvesAt nat | RejectsAt nat error | NeverSettles

text \<open>
  A cache map as the initializer uses it: the two properties it reads, and whether the
  calls \<open>keys()\<close> and \<open>queryIn({}, [])\<close> it makes for its diagnostics throw.
\<close>

record cacheMap_view =
  implementationType :: "string js"
  initializationPromise :: "timed js"
  keys_throws :: "error option"
  queryIn_throws :: "error option"

text \<open>
  The surroundings of one run of \<open>initializeApp\<close>: how \<open>await initializeCaches()\<close>
  ends and the state of the cache module at that moment, the \<open>cacheMap\<close> property of
  each cache instance, and \<open>navigator.storage.estimate\<close> (absent, or how the awaited
  call ends).
\<close>

record environment =
  env_initializeCaches :: "unit settles"
  env_module :: module_state
  env_cacheMap :: "cache_name \<Rightarrow> cacheMap_view js"
  env_estimate :: "unit settles option"

text \<open>
  The component's state (\<open>isInitialized\<close>, \<open>error\<close>), the console lines the component
  itself writes (interpolated values left out of the texts), and the time the race kept
  the startup waiting.
\<close>

record initializer_state =
  isInitialized :: bool
  init_error :: "string option"
  lines :: "(level \<times> string) list"
  waited :: nat

definition say :: "level \<Rightarrow> string \<Rightarrow> initializer_state \<Rightarrow> initializer_state" where
  "say l text st = st \<lparr> lines := lines st @ [(l, text)] \<rparr>"

text \<open>\<open>err instanceof Error ? err.message : 'Unknown error'\<close>\<close>

fun message_of :: "error \<Rightarrow> string" where
  "message_of (Error m) = m"
| "message_of (TypeError m) = m"
| "message_of (NonError v) = ''Unknown error''"

subsection \<open>Promise.all and Promise.race against the timer\<close>

text \<open>
  \<open>Promise.all\<close> resolves when all its promises have resolved, at the latest of their
  times; it rejects at the earliest rejection among them; otherwise it stays pending.
\<close>

fun all_resolved_at :: "timed list \<Rightarrow> nat option" where
  "all_resolved_at [] = Some 0"
| "all_resolved_at (ResolvesAt t # ps) = map_option (max t) (all_resolved_at ps)"
| "all_resolved_at (p # ps) = None"

fun earliest_rejection :: "timed list \<Rightarrow> (nat \<times> error) option" where
  "earliest_rejection [] = None"
| "earliest_rejection (RejectsAt t e # ps) =
     (case earliest_rejection ps of
        Some (t', e') \<Rightarrow> if t' < t then Some (t', e') else Some (t, e)
      | None \<Rightarrow> Some (t, e))"
| "earliest_rejection (p # ps) = earliest_rejection ps"

definition Promise_all :: "timed list \<Rightarrow> timed" where
  "Promise_all ps =
     (case all_resolved_at ps of
        Some t \<Rightarrow> ResolvesAt t
      | None \<Rightarrow>
          (case earliest_rejection ps of
             Some (t, e) \<Rightarrow> RejectsAt t e
           | None \<Rightarrow> NeverSettles))"

text \<open>
  The timer rejects after \<open>limit\<close> milliseconds. The race takes the outcome of the
  promise if it settles before that, and the timer's rejection otherwise; a promise
  settling in the very millisecond the timer fires is taken to have lost.
\<close>

definition timeout_error :: error where
  "timeout_error = Error ''IndexedDB initialization timeout after 10 seconds''"

definition Promise_race :: "timed \<Rightarrow> nat \<Rightarrow> (error + unit) \<times> nat" where
  "Promise_race p limit =
     (case p of
        ResolvesAt t \<Rightarrow> if t < limit then (Inr (), t) else (Inl timeout_error, limit)
      | RejectsAt t e \<Rightarrow> if t < limit then (Inl e, t) else (Inl timeout_error, limit)
      | NeverSettles \<Rightarrow> (Inl timeout_error, limit))"

subsection \<open>initializeApp\<close>

text \<open>
  The function runs on, or throws into the catch block at its end, or is stuck at an
  \<open>await\<close> that never settles; each carries the component state reached so far.
\<close>

datatype flow = Running initializer_state | Throws error initializer_state
  | Stuck initializer_state

definition and_then :: "flow \<Rightarrow> (initializer_state \<Rightarrow> flow) \<Rightarrow> flow" where
  "and_then f g = (case f of Running st \<Rightarrow> g st | Throws e st \<Rightarrow> Throws e st | Stuck st \<Rightarrow> Stuck st)"

text \<open>\<open>cacheMap?.initializationPromise\<close>, when it is truthy.\<close>

definition promise_of :: "cacheMap_view js \<Rightarrow> timed option" where
  "promise_of m =
     (case m of
        Val v \<Rightarrow> (case initializationPromise v of Val p \<Rightarrow> Some p | _ \<Rightarrow> None)
      | _ \<Rightarrow> None)"

text \<open>Collecting \<open>initPromises\<close> from the two cache maps.\<close>

definition collect :: "cacheMap_view js \<Rightarrow> cacheMap_view js \<Rightarrow> initializer_state
    \<Rightarrow> timed list \<times> initializer_state" where
  "collect widgetCacheMap widgetTypeCacheMap st =
     (let st1 = say LOG ''Widget cache map init promise:''
                  (say LOG ''Widget cache map type:''
                    (say LOG ''Checking initialization promises...'' st));
          (ps1, st2) =
            (case promise_of widgetCacheMap of
               Some p \<Rightarrow> ([p], say LOG ''Waiting for widget cache IndexedDB initialization...'' st1)
             | None \<Rightarrow> ([], st1));
          (ps2, st3) =
            (case promise_of widgetTypeCacheMap of
               Some p \<Rightarrow>
                 (ps1 @ [p], say LOG ''Waiting for widget type cache IndexedDB initialization...'' st2)
             | None \<Rightarrow> (ps1, st2))
      in (ps2, st3))"

text \<open>
  Waiting for the collected promises, at most 10000 milliseconds. The inner try/catch
  swallows a rejection or the timeout after a warning, so this step never throws.
\<close>

definition wait_for :: "timed list \<Rightarrow> initializer_state \<Rightarrow> initializer_state" where
  "wait_for initPromises st =
     (if length initPromises > 0
      then
        (let st1 = say LOG ''Waiting for initialization promises...'' st;
             (outcome, t) = Promise_race (Promise_all initPromises) 10000;
             st2 = st1 \<lparr> waited := t \<rparr>
         in case outcome of
              Inr u \<Rightarrow> say LOG ''IndexedDB initialization complete'' st2
            | Inl e \<Rightarrow>
                say LOG ''Continuing without IndexedDB initialization...''
                  (say WARN ''IndexedDB initialization failed or timed out:'' st2))
      else say LOG ''No initialization promises needed'' st)"

text \<open>
  A diagnostic call on \<open>cache.cacheMap\<close>: a TypeError when the cache map is undefined
  or null, the call's own error when it throws, else the result is logged.
\<close>

definition inspect :: "cacheMap_view js \<Rightarrow> (cacheMap_view \<Rightarrow> error option) \<Rightarrow> string
    \<Rightarrow> initializer_state \<Rightarrow> flow" where
  "inspect m call text st =
     (case m of
        Val v \<Rightarrow> (case call v of Some e \<Rightarrow> Throws e st | None \<Rightarrow> Running (say LOG text st))
      | _ \<Rightarrow> Throws (TypeError ''Cannot read properties of undefined'') st)"

definition check_storage :: "unit settles option \<Rightarrow> initializer_state \<Rightarrow> flow" where
  "check_storage estimate st =
     (case estimate of
        None \<Rightarrow> Running st
      | Some Never \<Rightarrow> Stuck st
      | Some (Rejects e) \<Rightarrow> Throws e st
      | Some (Resolves u) \<Rightarrow> Running (say LOG ''IndexedDB storage:'' st))"

text \<open>
  The second half of the try block: the diagnostics on the two cache maps, the storage
  estimate, the pause of 100 milliseconds and \<open>setIsInitialized(true)\<close>.
\<close>

definition diagnostics :: "cacheMap_view js \<Rightarrow> cacheMap_view js \<Rightarrow> unit settles option
    \<Rightarrow> initializer_state \<Rightarrow> flow" where
  "diagnostics widgetCacheMap widgetTypeCacheMap estimate st =
     and_then (inspect widgetCacheMap keys_throws ''Widget cache keys:'' st) (\<lambda>st1.
     and_then (inspect widgetTypeCacheMap keys_throws ''Widget type cache keys:'' st1) (\<lambda>st2.
     and_then (inspect widgetCacheMap queryIn_throws ''All widgets from cache map:'' st2) (\<lambda>st3.
     and_then (inspect widgetTypeCacheMap queryIn_throws ''All widget types from cache map:'' st3)
       (\<lambda>st4.
     and_then (check_storage estimate st4) (\<lambda>st5.
     Running ((say LOG ''Cache initialization complete, enabling React providers''
                (say LOG ''Waiting for React providers to be ready...'' st5))
              \<lparr> isInitialized := True \<rparr>))))))"

text \<open>The try block of \<open>initializeApp\<close>.\<close>

definition try_block :: "environment \<Rightarrow> flow" where
  "try_block env =
     (let st0 = say LOG ''Initializing IndexedDB caches...''
                  \<lparr> isInitialized = False, init_error = None, lines = [], waited = 0 \<rparr>
      in case env_initializeCaches env of
           Never \<Rightarrow> Stuck st0
         | Rejects e \<Rightarrow> Throws e st0
         | Resolves u \<Rightarrow>
            (case fst (getWidgetCacheSync (env_module env)) of
               Inl e \<Rightarrow> Throws e st0
             | Inr wc \<Rightarrow>
                (case fst (getWidgetTypeCacheSync (env_module env)) of
                   Inl e \<Rightarrow> Throws e st0
                 | Inr wtc \<Rightarrow>
                    (let widgetCacheMap = env_cacheMap env wc;
                         widgetTypeCacheMap = env_cacheMap env wtc;
                         (initPromises, st1) = collect widgetCacheMap widgetTypeCacheMap st0;
                         st2 = wait_for initPromises st1;
                         st3 = say LOG ''Checking cache contents after initialization:''
                                (say LOG ''Caches initialized with 0 widgets and 0 widget types''
                                  (say LOG ''Providers will load data on-demand using cache-first operations''
                                    (say LOG ''Cache initialization complete - skipping data preloading''
                                       st2)))
                     in diagnostics widgetCacheMap widgetTypeCacheMap (env_estimate env) st3))))"

text \<open>
  \<open>initializeApp\<close>: the try block, and the catch block for whatever it throws. A run
  stuck at an \<open>await\<close> leaves the component as it was at that point.
\<close>

definition initializeApp :: "environment \<Rightarrow> initializer_state" where
  "initializeApp env =
     (case try_block env of
        Running st \<Rightarrow> st
      | Throws err st \<Rightarrow>
          (say ERROR ''Failed to initialize caches:'' st)
            \<lparr> init_error := Some (message_of err), isInitialized := True \<rparr>
      | Stuck st \<Rightarrow> st)"

text \<open>
  What the component renders: the loading screen until it is marked initialized, a
  warning panel in place of the application when an error message is set (an empty
  message is falsy), and the application otherwise.
\<close>

datatype view = LoadingScreen | WarningPanel string | Children

definition render :: "initializer_state \<Rightarrow> view" where
  "render st =
     (if \<not> isInitialized st then LoadingScreen
      else case init_error st of
             Some m \<Rightarrow> if m \<noteq> [] then WarningPanel m else Children
           | None \<Rightarrow> Children)"

text \<open>Surroundings for the examples: both caches loaded, cache maps in working order.\<close>

definition loaded_module :: module_state where
  "loaded_module =
     run True [Call, ImportResolves 0, ImportResolves 0, ImportResolves 0] initial_state"

definition working_map :: "timed js \<Rightarrow> cacheMap_view js" where
  "working_map p =
     Val \<lparr> implementationType = Val ''indexedDB'', initializationPromise = p,
           keys_throws = None, queryIn_throws = None \<rparr>"

definition example_env :: "timed js \<Rightarrow> timed js \<Rightarrow> environment" where
  "example_env p q =
     \<lparr> env_initializeCaches = Resolves (),
       env_module = loaded_module,
       env_cacheMap = (\<lambda>c. if c = widgetCache then working_map p else working_map q),
       env_estimate = Some (Resolves ()) \<rparr>"

text \<open>
  Two runs in a browser in which \<open>initializeApp\<close> throws outside the wait for the
  IndexedDB promises. In the first the dynamic import of the widget type cache module
  fails, so \<open>initializeCaches\<close> rejects with the import's error. In the second
  everything is in working order and the IndexedDB promises resolve after 300 and 500
  milliseconds, but \<open>navigator.storage.estimate()\<close> rejects.
\<close>

definition import_failure :: error where
  "import_failure = Error ''Failed to fetch dynamically imported module''"

definition failed_import_env :: environment where
  "failed_import_env =
     \<lparr> env_initializeCaches = Rejects import_failure,
       env_module = run True [Call, ImportResolves 0, ImportRejects 0 import_failure] initial_state,
       env_cacheMap = (\<lambda>c. working_map Undefined),
       env_estimate = Some (Resolves ()) \<rparr>"

definition failed_estimate_env :: environment where
  "failed_estimate_env =
     (example_env (Val (ResolvesAt 300)) (Val (ResolvesAt 500)))
       \<lparr> env_estimate := Some (Rejects (TypeError ''The operation is not supported'')) \<rparr>"

subsection \<open>Notions for the properties of the startup\<close>

fun state_of :: "flow \<Rightarrow> initializer_state" where
  "state_of (Running st) = st"
| "state_of (Throws e st) = st"
| "state_of (Stuck st) = st"

text \<open>A cache map on which the diagnostic calls succeed.\<close>

definition works :: "cacheMap_view js \<Rightarrow> bool" where
  "works m = (case m of Val v \<Rightarrow> keys_throws v = None \<and> queryIn_throws v = None | _ \<Rightarrow> False)"

definition estimate_ok :: "unit settles option \<Rightarrow> bool" where
  "estimate_ok estimate =
     (case estimate of None \<Rightarrow> True | Some (Resolves u) \<Rightarrow> True | _ \<Rightarrow> False)"

text \<open>
  Surroundings in which nothing but the IndexedDB initialization promises can go wrong:
  \<open>initializeCaches\<close> has resolved, the widget cache and the widget type cache are
  stored, the diagnostic calls on their cache maps succeed, and the storage estimate
  is absent or resolves.
\<close>

definition ready :: "environment \<Rightarrow> bool" where
  "ready env =
     (env_initializeCaches env = Resolves ()
      \<and> (case m_widgetCache (env_module env) of
            Some wc \<Rightarrow>
              (case m_widgetTypeCache (env_module env) of
                 Some wtc \<Rightarrow> works (env_cacheMap env wc) \<and> works (env_cacheMap env wtc)
               | None \<Rightarrow> False)
          | None \<Rightarrow> False)
      \<and> estimate_ok (env_estimate env))"

text \<open>The initialization promises the two cache maps offer, in the order collected.\<close>

definition init_promises :: "environment \<Rightarrow> timed list" where
  "init_promises env =
     (case m_widgetCache (env_module env) of
        Some wc \<Rightarrow>
          (case m_widgetTypeCache (env_module env) of
             Some wtc \<Rightarrow>
               (case promise_of (env_cacheMap env wc) of Some p \<Rightarrow> [p] | None \<Rightarrow> [])
               @ (case promise_of (env_cacheMap env wtc) of Some p \<Rightarrow> [p] | None \<Rightarrow> [])
           | None \<Rightarrow> [])
      | None \<Rightarrow> [])"

text \<open>The race is run and ends with a rejection: a promise rejected, or the timeout.\<close>

definition race_lost :: "environment \<Rightarrow> bool" where
  "race_lost env =
     (init_promises env \<noteq> [] \<and> isl (fst (Promise_race (Promise_all (init_promises env)) 10000)))"

text \<open>What the second half of the try block can end in.\<close>

definition outcome_ok :: "initializer_state \<Rightarrow> unit settles option \<Rightarrow> flow \<Rightarrow> bool" where
  "outcome_ok st estimate f =
     (waited (state_of f) = waited st
      \<and> init_error (state_of f) = init_error st
      \<and> set (lines st) \<subseteq> set (lines (state_of f))
      \<and> (case f of
            Running st' \<Rightarrow> isInitialized st'
          | Throws e st' \<Rightarrow> True
          | Stuck st' \<Rightarrow> estimate = Some Never))"

section \<open>Properties\<close>

subsection \<open>C4: the two-layer TTL options of the three caches\<close>

text \<open>
  C4. Each of the three cache configurations the application constructs (widget,
  widgetType, widgetComponent) carries the two-layer options itemTTL = 900,
  queryTTL = 300 and facetTTL = 60 seconds, whatever database and store names are
  passed, and so facetTTL is at most queryTTL, which is at most itemTTL. The options
  are a value built once and handed to the cache constructor; nothing in the three
  modules updates them afterwards.
\<close>

theorem cache_options_ttls:
  "twoLayer widgetCache_options = \<lparr> itemTTL = 900, queryTTL = 300, facetTTL = 60, debug = True \<rparr>
   \<and> twoLayer widgetTypeCache_options = \<lparr> itemTTL = 900, queryTTL = 300, facetTTL = 60, debug = True \<rparr>
   \<and> twoLayer widgetComponentCache_options = \<lparr> itemTTL = 900, queryTTL = 300, facetTTL = 60, debug = True \<rparr>
   \<and> ttl_ordered (twoLayer widgetCache_options)
   \<and> ttl_ordered (twoLayer widgetTypeCache_options)
   \<and> ttl_ordered (twoLayer widgetComponentCache_options)
   \<and> ttl_ordered (twoLayer (WidgetCache_createCacheOptions db store))
   \<and> ttl_ordered (twoLayer (WidgetTypeCache_createCacheOptions db store))
   \<and> ttl_ordered (twoLayer (WidgetComponentCache_createCacheOptions db store))"
  by (simp add: widgetCache_options_def widgetTypeCache_options_def
      widgetComponentCache_options_def WidgetCache_createCacheOptions_def
      WidgetTypeCache_createCacheOptions_def WidgetComponentCache_createCacheOptions_def
      ttl_ordered_def)

subsection \<open>C7: cache statistics\<close>

text \<open>
  C7. For each of the three entity-type caches, getCacheStats returns the itemCount
  reported by getCurrentSize; when the cache map exposes a getTwoLayerStats function,
  queryCount is that function's queryMetadata.complete and facetCount is its
  queryMetadata.partial; when getTwoLayerStats is absent or is not a function, both
  counts are 0.
\<close>

theorem getCacheStats_counts:
  assumes "f = widgetCacheUtils_getCacheStats \<or> f = widgetTypeCacheUtils_getCacheStats
           \<or> f = widgetComponentCacheUtils_getCacheStats"
  shows "stat_itemCount (f cm) = itemCount (getCurrentSize cm)
     \<and> (\<forall>st. getTwoLayerStats cm = Function st \<longrightarrow>
            stat_queryCount (f cm) = complete (queryMetadata st)
          \<and> stat_facetCount (f cm) = partial (queryMetadata st))
     \<and> ((\<forall>st. getTwoLayerStats cm \<noteq> Function st) \<longrightarrow>
            stat_queryCount (f cm) = 0 \<and> stat_facetCount (f cm) = 0)"
proof -
  consider (w) "f = widgetCacheUtils_getCacheStats"
    | (wt) "f = widgetTypeCacheUtils_getCacheStats"
    | (wc) "f = widgetComponentCacheUtils_getCacheStats"
    using assms by blast
  then show ?thesis
  proof cases
    case w
    then show ?thesis
      by (cases "getTwoLayerStats cm") (simp_all add: widgetCacheUtils_getCacheStats_def)
  next
    case wt
    then show ?thesis
      by (cases "getTwoLayerStats cm") (simp_all add: widgetTypeCacheUtils_getCacheStats_def)
  next
    case wc
    then show ?thesis
      by (cases "getTwoLayerStats cm") (simp_all add: widgetComponentCacheUtils_getCacheStats_def)
  qed
qed

theorem getCacheStats_counts_witness:
  "stat_itemCount (widgetComponentCacheUtils_getCacheStats
       \<lparr> getCurrentSize = \<lparr> itemCount = 7, sizeBytes = 2048 \<rparr>,
         getTwoLayerStats = Function \<lparr> queryMetadata = \<lparr> complete = 2, partial = 5 \<rparr> \<rparr> \<rparr>) = 7
   \<and> stat_queryCount (widgetComponentCacheUtils_getCacheStats
       \<lparr> getCurrentSize = \<lparr> itemCount = 7, sizeBytes = 2048 \<rparr>,
         getTwoLayerStats = Function \<lparr> queryMetadata = \<lparr> complete = 2, partial = 5 \<rparr> \<rparr> \<rparr>) = 2
   \<and> stat_facetCount (widgetComponentCacheUtils_getCacheStats
       \<lparr> getCurrentSize = \<lparr> itemCount = 7, sizeBytes = 2048 \<rparr>,
         getTwoLayerStats = Function \<lparr> queryMetadata = \<lparr> complete = 2, partial = 5 \<rparr> \<rparr> \<rparr>) = 5
   \<and> stat_queryCount (widgetCacheUtils_getCacheStats
       \<lparr> getCurrentSize = \<lparr> itemCount = 7, sizeBytes = 2048 \<rparr>,
         getTwoLayerStats = NotAFunction \<rparr>) = 0
   \<and> stat_facetCount (widgetTypeCacheUtils_getCacheStats
       \<lparr> getCurrentSize = \<lparr> itemCount = 7, sizeBytes = 2048 \<rparr>,
         getTwoLayerStats = Absent \<rparr>) = 0"
  using
    getCacheStats_counts [of widgetComponentCacheUtils_getCacheStats
       "\<lparr> getCurrentSize = \<lparr> itemCount = 7, sizeBytes = 2048 \<rparr>,
         getTwoLayerStats = Function \<lparr> queryMetadata = \<lparr> complete = 2, partial = 5 \<rparr> \<rparr> \<rparr>"]
    getCacheStats_counts [of widgetCacheUtils_getCacheStats
       "\<lparr> getCurrentSize = \<lparr> itemCount = 7, sizeBytes = 2048 \<rparr>,
         getTwoLayerStats = NotAFunction \<rparr>"]
    getCacheStats_counts [of widgetTypeCacheUtils_getCacheStats
       "\<lparr> getCurrentSize = \<lparr> itemCount = 7, sizeBytes = 2048 \<rparr>,
         getTwoLayerStats = Absent \<rparr>"]
  by simp

subsection \<open>C1: removal of a parent invalidates the child cache\<close>

lemma queryIn_clearQueryResults: "queryIn opts now (clearQueryResults m) sg sc = None"
  by (simp add: queryIn_def clearQueryResults_def)

lemma emit_widgetType_removed:
  "event_type event = item_removed \<Longrightarrow> truthy (event_item_id event) \<Longrightarrow>
   emit widgetTypeCache event =
     [Console LOG ''WidgetType item_removed detected:'' (event_item_id event),
      ClearQueryResults widgetCache]"
  by (simp add: emit_def widgetTypeCache_subscriber_def)

lemma emit_widget_removed:
  "event_type event = item_removed \<Longrightarrow> truthy (event_item_id event) \<Longrightarrow>
   emit widgetCache event =
     [Console LOG ''Widget item_removed detected:'' (event_item_id event),
      Console LOG ''Widget removed, invalidating related components:'' (event_item_id event),
      ClearQueryResults widgetComponentCache]"
  by (simp add: emit_def widgetCache_subscriber_log_def widgetCache_subscriber_components_def)

text \<open>
  C1. For every item_removed event of the widgetType cache whose item has a non-empty
  id, the coordinator calls clearQueryResults on the widget cache's map, and for every
  such event of the widget cache it calls clearQueryResults on the widgetComponent
  cache's map. After the handlers have run, the dependent cache's map is the cleared
  one, so a query against it, for any signature and location scope and at any time, is
  a cache miss.
\<close>

theorem removal_clears_dependent_cache:
  assumes "event_type event = item_removed" and "truthy (event_item_id event)"
  shows "clears widgetCache (emit widgetTypeCache event)
     \<and> clears widgetComponentCache (emit widgetCache event)
     \<and> cacheMap_of (perform_all (emit widgetTypeCache event) s) widgetCache
         = clearQueryResults (cacheMap_of s widgetCache)
     \<and> cacheMap_of (perform_all (emit widgetCache event) s) widgetComponentCache
         = clearQueryResults (cacheMap_of s widgetComponentCache)
     \<and> queryIn opts now (cacheMap_of (perform_all (emit widgetTypeCache event) s) widgetCache) sg sc = None
     \<and> queryIn opts now (cacheMap_of (perform_all (emit widgetCache event) s) widgetComponentCache) sg sc
         = None"
proof -
  have t: "emit widgetTypeCache event =
     [Console LOG ''WidgetType item_removed detected:'' (event_item_id event),
      ClearQueryResults widgetCache]"
    using assms by (rule emit_widgetType_removed)
  have w: "emit widgetCache event =
     [Console LOG ''Widget item_removed detected:'' (event_item_id event),
      Console LOG ''Widget removed, invalidating related components:'' (event_item_id event),
      ClearQueryResults widgetComponentCache]"
    using assms by (rule emit_widget_removed)
  show ?thesis
    unfolding t w by (simp add: clears_def perform_all_def queryIn_clearQueryResults)
qed

theorem removal_clears_dependent_cache_witness:
  "queryIn (twoLayer widgetComponentCache_options) 120
      (cacheMap_of example_caches widgetComponentCache) ''byWidget'' [(''widget'', ''w1'')]
     = Some [''c1'']
   \<and> clears widgetComponentCache (emit widgetCache (removed_event ''w1''))
   \<and> queryIn (twoLayer widgetComponentCache_options) 120
      (cacheMap_of (perform_all (emit widgetCache (removed_event ''w1'')) example_caches)
         widgetComponentCache) ''byWidget'' [(''widget'', ''w1'')]
     = None
   \<and> clears widgetCache (emit widgetTypeCache (removed_event ''w1''))"
proof -
  have a: "event_type (removed_event ''w1'') = item_removed"
    by (simp add: removed_event_def)
  have b: "truthy (event_item_id (removed_event ''w1''))"
    by (simp add: removed_event_def event_item_id_def)
  have before: "queryIn (twoLayer widgetComponentCache_options) 120
      (cacheMap_of example_caches widgetComponentCache) ''byWidget'' [(''widget'', ''w1'')]
     = Some [''c1'']"
    by (simp add: queryIn_def example_caches_def example_map_def entry_valid_def
        widgetComponentCache_options_def WidgetComponentCache_createCacheOptions_def)
  from removal_clears_dependent_cache [OF a b, of example_caches
      "twoLayer widgetComponentCache_options" 120 "''byWidget''" "[(''widget'', ''w1'')]"]
    before
  show ?thesis by blast
qed

subsection \<open>C2: what the coordinator does for each pair of source and event type\<close>

text \<open>
  C2, as stated, fails: for an item_created event of the widget cache the coordinator
  neither calls clearQueryResults on any cache nor writes to the warning channel; its
  only effect is one console.log line.
\<close>

theorem widget_created_no_rule_no_warning:
  "\<not> (applies_rule
          (emit widgetCache \<lparr> event_type = item_created, event_item = Val \<lparr> item_id = Val ''w1'' \<rparr> \<rparr>)
      \<or> logs WARN
          (emit widgetCache \<lparr> event_type = item_created, event_item = Val \<lparr> item_id = Val ''w1'' \<rparr> \<rparr>))"
  by (simp add: emit_def widgetCache_subscriber_log_def widgetCache_subscriber_components_def
      applies_rule_def clears_def logs_def)

text \<open>
  C2, amended. For every source cache (widgetType, widget, widgetComponent) and every
  event type among item_created, item_updated and item_removed, the coordinator writes
  at least one console.log line, so no pair is a silent no-op; it never writes a
  warning. It calls clearQueryResults exactly for item_removed events whose item has a
  non-empty id: on the widget cache when the source is widgetType, on the
  widgetComponent cache when the source is widget, and never on the widgetType cache.
\<close>

theorem every_pair_is_logged:
  assumes "event_type event = item_created \<or> event_type event = item_updated
           \<or> event_type event = item_removed"
  shows "logs LOG (emit source event)
     \<and> \<not> logs WARN (emit source event)
     \<and> (clears widgetCache (emit source event) \<longleftrightarrow>
          source = widgetTypeCache \<and> event_type event = item_removed \<and> truthy (event_item_id event))
     \<and> (clears widgetComponentCache (emit source event) \<longleftrightarrow>
          source = widgetCache \<and> event_type event = item_removed \<and> truthy (event_item_id event))
     \<and> \<not> clears widgetTypeCache (emit source event)"
proof (cases source)
  case widgetCache
  with assms show ?thesis
    by (auto simp add: emit_def widgetCache_subscriber_log_def
        widgetCache_subscriber_components_def clears_def logs_def)
next
  case widgetTypeCache
  with assms show ?thesis
    by (auto simp add: emit_def widgetTypeCache_subscriber_def clears_def logs_def)
next
  case widgetComponentCache
  with assms show ?thesis
    by (auto simp add: emit_def widgetComponentCache_subscriber_def clears_def logs_def)
qed

theorem every_pair_is_logged_witness:
  "logs LOG (emit widgetCache \<lparr> event_type = item_created, event_item = Val \<lparr> item_id = Val ''w1'' \<rparr> \<rparr>)
   \<and> \<not> logs WARN
        (emit widgetCache \<lparr> event_type = item_created, event_item = Val \<lparr> item_id = Val ''w1'' \<rparr> \<rparr>)
   \<and> logs LOG (emit widgetTypeCache \<lparr> event_type = item_removed, event_item = Null \<rparr>)
   \<and> \<not> clears widgetCache (emit widgetTypeCache \<lparr> event_type = item_removed, event_item = Null \<rparr>)"
  using
    every_pair_is_logged [of "\<lparr> event_type = item_created, event_item = Val \<lparr> item_id = Val ''w1'' \<rparr> \<rparr>"
      widgetCache]
    every_pair_is_logged [of "\<lparr> event_type = item_removed, event_item = Null \<rparr>" widgetTypeCache]
  by (simp add: event_item_id_def)

subsection \<open>C8: the widget validator rejects before any write\<close>

lemma onCreate_accepts_only:
  assumes "Widget_onCreate findByPk w = Inr ok"
  shows "\<exists>tid row n. widget_widgetTypeId w = Val tid \<and> findByPk tid = Inr (Some row)
           \<and> wt_isActive row \<and> widget_name w = Val n \<and> n \<noteq> [] \<and> length n \<le> 255"
  using assms
  by (auto simp add: Widget_onCreate_def
      split: js.splits sum.splits option.splits if_splits data_value.splits)

lemma create_widget_rejected:
  assumes "isl (Widget_onCreate (findByPk_in db) w)"
  shows "\<exists>e. create_widget remote_create db w = (Inl e, db)"
  using assms by (cases "Widget_onCreate (findByPk_in db) w") (simp_all add: create_widget_def)

text \<open>
  C8. Whenever the widget type a new widget refers to does not exist, or exists but is
  not active, or the widget's name is missing (undefined or null) or empty, or the
  name is longer than 255 characters, the onCreate validator throws. The create
  operation, which consults the validator first, then returns that error without
  calling the remote create, whatever that would do, and leaves the database as it
  was: no widget is written.
\<close>

theorem invalid_widget_rejected_before_write:
  assumes "(\<exists>tid. widget_widgetTypeId w = Val tid \<and> widgetTypes db tid = None)
         \<or> (\<exists>tid row. widget_widgetTypeId w = Val tid \<and> widgetTypes db tid = Some row
                \<and> \<not> wt_isActive row)
         \<or> widget_name w = Undefined \<or> widget_name w = Null \<or> widget_name w = Val []
         \<or> (\<exists>n. widget_name w = Val n \<and> length n > 255)"
  shows "isl (Widget_onCreate (findByPk_in db) w)
     \<and> (\<exists>e. create_widget remote_create db w = (Inl e, db))
     \<and> widgets (snd (create_widget remote_create db w)) = widgets db"
proof -
  have rejected: "isl (Widget_onCreate (findByPk_in db) w)"
  proof (rule ccontr)
    assume "\<not> isl (Widget_onCreate (findByPk_in db) w)"
    then obtain ok where "Widget_onCreate (findByPk_in db) w = Inr ok"
      by (cases "Widget_onCreate (findByPk_in db) w") simp_all
    from onCreate_accepts_only [OF this]
    obtain tid row n where "widget_widgetTypeId w = Val tid"
      and "findByPk_in db tid = Inr (Some row)" and "wt_isActive row"
      and "widget_name w = Val n" and "n \<noteq> []" and "length n \<le> 255"
      by blast
    with assms show False
      by (auto simp add: findByPk_in_def)
  qed
  from create_widget_rejected [OF rejected]
  obtain e where "create_widget remote_create db w = (Inl e, db)" ..
  with rejected show ?thesis by simp
qed

theorem invalid_widget_rejected_before_write_witness:
  "create_widget insert_widget example_db (example_widget (Val ''t3'') (Val ''Submit''))
     = (Inl (Error ''Widget type with ID t3 does not exist''), example_db)
   \<and> create_widget insert_widget example_db (example_widget (Val ''t2'') (Val ''Submit''))
     = (Inl (Error ''Widget type GAUGE is not active''), example_db)
   \<and> isl (Widget_onCreate (findByPk_in example_db) (example_widget (Val ''t1'') Undefined))
   \<and> widgets (snd (create_widget insert_widget example_db
        (example_widget (Val ''t1'') (Val (replicate 256 CHR ''a''))))) = []
   \<and> widgets (snd (create_widget insert_widget example_db
        (example_widget (Val ''t1'') (Val '' Submit ''))))
     = [(example_widget (Val ''t1'') (Val ''Submit'')) \<lparr> widget_isActive := Val True \<rparr>]"
proof -
  have a: "create_widget insert_widget example_db (example_widget (Val ''t3'') (Val ''Submit''))
     = (Inl (Error ''Widget type with ID t3 does not exist''), example_db)"
    using invalid_widget_rejected_before_write
      [of "example_widget (Val ''t3'') (Val ''Submit'')" example_db insert_widget]
    by (simp add: create_widget_def Widget_onCreate_def findByPk_in_def example_db_def
        example_widget_def trim_def is_space_def)
  have b: "create_widget insert_widget example_db (example_widget (Val ''t2'') (Val ''Submit''))
     = (Inl (Error ''Widget type GAUGE is not active''), example_db)"
    using invalid_widget_rejected_before_write
      [of "example_widget (Val ''t2'') (Val ''Submit'')" example_db insert_widget]
    by (simp add: create_widget_def Widget_onCreate_def findByPk_in_def example_db_def
        example_widget_def trim_def is_space_def)
  have c: "isl (Widget_onCreate (findByPk_in example_db) (example_widget (Val ''t1'') Undefined))"
    using invalid_widget_rejected_before_write
      [of "example_widget (Val ''t1'') Undefined" example_db insert_widget]
    by (simp add: example_widget_def)
  have d: "widgets (snd (create_widget insert_widget example_db
        (example_widget (Val ''t1'') (Val (replicate 256 CHR ''a''))))) = []"
    using invalid_widget_rejected_before_write
      [of "example_widget (Val ''t1'') (Val (replicate 256 CHR ''a''))" example_db insert_widget]
    by (simp add: example_widget_def example_db_def)
  have e: "widgets (snd (create_widget insert_widget example_db
        (example_widget (Val ''t1'') (Val '' Submit ''))))
     = [(example_widget (Val ''t1'') (Val ''Submit'')) \<lparr> widget_isActive := Val True \<rparr>]"
    by (simp add: create_widget_def insert_widget_def Widget_onCreate_def Widget_preCreate_def
        findByPk_in_def example_db_def example_widget_def trim_def is_space_def)
  from a b c d e show ?thesis by blast
qed

subsection \<open>C9: defaults applied by the preCreate hooks\<close>

lemma strip_right:
  "xs = rev (dropWhile P (rev xs)) @ rev (takeWhile P (rev xs))"
proof -
  have "rev xs = takeWhile P (rev xs) @ dropWhile P (rev xs)"
    by simp
  then have "rev (rev xs) = rev (takeWhile P (rev xs) @ dropWhile P (rev xs))"
    by (rule arg_cong)
  then show ?thesis
    by (simp only: rev_rev_ident rev_append)
qed

lemma trim_right:
  "dropWhile is_space s = trim s @ rev (takeWhile is_space (rev (dropWhile is_space s)))"
  unfolding trim_def by (rule strip_right)

lemma trim_decomposition:
  "s = takeWhile is_space s @ trim s @ rev (takeWhile is_space (rev (dropWhile is_space s)))"
proof -
  have "s = takeWhile is_space s @ dropWhile is_space s"
    by simp
  with trim_right [of s] show ?thesis by metis
qed

lemma trim_last: "trim s \<noteq> [] \<Longrightarrow> \<not> is_space (last (trim s))"
proof -
  assume "trim s \<noteq> []"
  then have ne: "dropWhile is_space (rev (dropWhile is_space s)) \<noteq> []"
    by (simp add: trim_def)
  have "last (trim s) = hd (dropWhile is_space (rev (dropWhile is_space s)))"
    using ne by (simp add: trim_def last_rev)
  with hd_dropWhile [OF ne] show ?thesis by simp
qed

lemma hd_of_prefix: "xs = a @ b \<Longrightarrow> a \<noteq> [] \<Longrightarrow> xs \<noteq> [] \<and> hd xs = hd a"
  by simp

lemma trim_hd: "trim s \<noteq> [] \<Longrightarrow> \<not> is_space (hd (trim s))"
proof -
  assume ne: "trim s \<noteq> []"
  from hd_of_prefix [OF trim_right ne]
  have t: "dropWhile is_space s \<noteq> []" and h: "hd (dropWhile is_space s) = hd (trim s)"
    by blast+
  from hd_dropWhile [OF t] h show ?thesis by simp
qed

text \<open>
  C9. The preCreate hook of the widget library, given a widget with a name, returns
  the widget with the name trimmed and, when isActive was not given, with isActive =
  true (a given isActive is kept). The preCreate hook of the widget component library,
  given a component with a name, returns it with the name trimmed, with status
  'pending' when no status was given and with priority 0 when no priority was given
  (given values are kept). The trimmed name is the original name without the white
  space before and after it: it neither starts nor ends with white space, and what was
  removed on either side is white space only.
\<close>

theorem preCreate_defaults:
  "(widget_name w = Val n \<longrightarrow>
      (\<exists>w'. Widget_preCreate w = Inr w'
         \<and> widget_name w' = Val (trim n)
         \<and> (widget_isActive w = Undefined \<longrightarrow> widget_isActive w' = Val True)
         \<and> (widget_isActive w \<noteq> Undefined \<longrightarrow> widget_isActive w' = widget_isActive w)))
   \<and> (component_name c = Val m \<longrightarrow>
      (\<exists>c'. WidgetComponent_preCreate c = Inr c'
         \<and> component_name c' = Val (trim m)
         \<and> (component_status c = Undefined \<longrightarrow> component_status c' = Val ''pending'')
         \<and> (component_status c \<noteq> Undefined \<longrightarrow> component_status c' = component_status c)
         \<and> (component_priority c = Undefined \<longrightarrow> component_priority c' = Val 0)
         \<and> (component_priority c \<noteq> Undefined \<longrightarrow>
               component_priority c' = component_priority c)))
   \<and> (trim s \<noteq> [] \<longrightarrow> \<not> is_space (hd (trim s)) \<and> \<not> is_space (last (trim s)))
   \<and> (\<exists>before after. s = before @ trim s @ after
         \<and> list_all is_space before \<and> list_all is_space after)"
proof -
  have widget_part: "widget_name w = Val n \<longrightarrow>
      (\<exists>w'. Widget_preCreate w = Inr w'
         \<and> widget_name w' = Val (trim n)
         \<and> (widget_isActive w = Undefined \<longrightarrow> widget_isActive w' = Val True)
         \<and> (widget_isActive w \<noteq> Undefined \<longrightarrow> widget_isActive w' = widget_isActive w))"
    by (simp add: Widget_preCreate_def)
  have component_part: "component_name c = Val m \<longrightarrow>
      (\<exists>c'. WidgetComponent_preCreate c = Inr c'
         \<and> component_name c' = Val (trim m)
         \<and> (component_status c = Undefined \<longrightarrow> component_status c' = Val ''pending'')
         \<and> (component_status c \<noteq> Undefined \<longrightarrow> component_status c' = component_status c)
         \<and> (component_priority c = Undefined \<longrightarrow> component_priority c' = Val 0)
         \<and> (component_priority c \<noteq> Undefined \<longrightarrow>
               component_priority c' = component_priority c))"
    by (simp add: WidgetComponent_preCreate_def)
  have ends: "trim s \<noteq> [] \<longrightarrow> \<not> is_space (hd (trim s)) \<and> \<not> is_space (last (trim s))"
    using trim_hd trim_last by blast
  have "list_all is_space (takeWhile is_space s)"
    by (simp add: list_all_iff) (meson set_takeWhileD)
  moreover have "list_all is_space (rev (takeWhile is_space (rev (dropWhile is_space s))))"
    by (simp add: list_all_iff) (meson set_takeWhileD)
  ultimately have removed: "\<exists>before after. s = before @ trim s @ after
         \<and> list_all is_space before \<and> list_all is_space after"
    using trim_decomposition [of s] by blast
  from widget_part component_part ends removed show ?thesis by blast
qed

theorem preCreate_defaults_witness:
  "Widget_preCreate (example_widget (Val ''t1'') (Val ''  Submit  ''))
     = Inr ((example_widget (Val ''t1'') (Val ''Submit'')) \<lparr> widget_isActive := Val True \<rparr>)
   \<and> WidgetComponent_preCreate (example_component (Val ''  Test Component  ''))
     = Inr ((example_component (Val ''Test Component''))
          \<lparr> component_status := Val ''pending'', component_priority := Val 0 \<rparr>)
   \<and> trim ''  Test Component  '' = ''Test Component''
   \<and> \<not> is_space (hd (trim ''  Test Component  ''))"
proof -
  have t: "trim ''  Test Component  '' = ''Test Component''"
    by (simp add: trim_def is_space_def)
  have "\<not> is_space (hd (trim ''  Test Component  ''))"
    using preCreate_defaults [of "example_widget (Val ''t1'') (Val ''  Submit  '')" "''  Submit  ''"
        "example_component (Val ''  Test Component  '')" "''  Test Component  ''"
        "''  Test Component  ''"] t
    by simp
  moreover have "Widget_preCreate (example_widget (Val ''t1'') (Val ''  Submit  ''))
     = Inr ((example_widget (Val ''t1'') (Val ''Submit'')) \<lparr> widget_isActive := Val True \<rparr>)"
    by (simp add: Widget_preCreate_def example_widget_def trim_def is_space_def)
  moreover have "WidgetComponent_preCreate (example_component (Val ''  Test Component  ''))
     = Inr ((example_component (Val ''Test Component''))
          \<lparr> component_status := Val ''pending'', component_priority := Val 0 \<rparr>)"
    by (simp add: WidgetComponent_preCreate_def example_component_def trim_def is_space_def)
  ultimately show ?thesis using t by blast
qed

subsection \<open>Invariants of the lazy initialization\<close>

text \<open>
  The facts below hold in every state reachable from the initial one by calls of
  initializeCaches and by settled imports; they are proved step by step and then
  carried over all runs by rule induction.
\<close>

lemma inv_initial: "inv initial_state"
  by (simp add: inv_def initial_state_def in_flight_def all_loaded_def)

lemma inv_unique:
  "inv s \<Longrightarrow> suspended s p = Some st \<Longrightarrow> suspended s = [p \<mapsto> st]"
proof (rule ext)
  fix q
  assume i: "inv s" and p: "suspended s p = Some st"
  show "suspended s q = [p \<mapsto> st] q"
  proof (cases "suspended s q")
    case None
    with p show ?thesis by auto
  next
    case (Some st')
    with i have "m_initPromise s = Some q" by (simp add: inv_def)
    moreover from i p have "m_initPromise s = Some p" by (simp add: inv_def)
    ultimately have "q = p" by simp
    with p Some show ?thesis by simp
  qed
qed

lemma inv_idle:
  "inv s \<Longrightarrow> \<not> m_isInitializing s \<Longrightarrow> suspended s = Map.empty"
  by (rule ext) (auto simp add: inv_def)

lemma inv_Call: "inv s \<Longrightarrow> inv (step browser Call s)"
proof -
  assume i: "inv s"
  show ?thesis
  proof (cases "m_isInitializing s \<or> all_loaded s")
    case True
    with i show ?thesis
      by (simp add: initializeCaches_def split: option.splits)
  next
    case False
    then have idle: "suspended s = Map.empty" using i inv_idle by blast
    from False i have wc: "m_widgetComponentCache s = None"
      by (auto simp add: inv_def)
    from False idle wc show ?thesis
      by (cases browser)
        (simp_all add: initializeCaches_def Let_def inv_def in_flight_def all_loaded_def
          nth_append)
  qed
qed

lemma inv_busy_component:
  "inv s \<Longrightarrow> suspended s p = Some st \<Longrightarrow> m_widgetComponentCache s = None"
  by (auto simp add: inv_def in_flight_def)

lemma inv_resume:
  assumes i: "inv s" and p: "suspended s p = Some st"
  shows "inv (resume p st s)"
proof -
  note u = inv_unique [OF i p]
  note wc = inv_busy_component [OF i p]
  from i p have a: "m_isInitializing s" "m_initPromise s = Some p" "p < length (promises s)"
    "promises s ! p = Pending" "stage_ok s st"
    by (simp_all add: inv_def)
  show ?thesis
  proof (cases st)
    case AwaitWidgetCache
    with a u wc show ?thesis
      by (simp add: inv_def in_flight_def all_loaded_def)
  next
    case AwaitWidgetTypeCache
    with a u wc show ?thesis
      by (simp add: inv_def in_flight_def all_loaded_def)
  next
    case AwaitWidgetComponentCache
    with a u wc show ?thesis
      by (simp add: inv_def in_flight_def all_loaded_def)
  qed
qed

lemma inv_abort:
  assumes i: "inv s" and p: "suspended s p = Some st"
  shows "inv (abort p e s)"
proof -
  note u = inv_unique [OF i p]
  note wc = inv_busy_component [OF i p]
  from u wc show ?thesis
    by (simp add: inv_def abort_def in_flight_def all_loaded_def)
qed

lemma inv_step: "inv s \<Longrightarrow> inv (step browser a s)"
proof (cases a)
  case Call
  assume "inv s"
  with Call show ?thesis using inv_Call by simp
next
  case (ImportResolves p)
  assume "inv s"
  with ImportResolves show ?thesis
    by (cases "suspended s p") (simp_all add: inv_resume)
next
  case (ImportRejects p e)
  assume "inv s"
  with ImportRejects show ?thesis
    by (cases "suspended s p") (simp_all add: inv_abort)
qed

lemma reachable_inv: "reachable browser s \<Longrightarrow> inv s"
  by (induction rule: reachable.induct) (simp_all add: inv_initial inv_step)


lemmas count_defs = counted_def starts_def failures_def successes_def written_def ind_def

lemma counted_initial: "counted initial_state"
  by (simp add: count_defs initial_state_def in_flight_def)

lemma counted_Call: "inv s \<Longrightarrow> counted s \<Longrightarrow> counted (step browser Call s)"
proof -
  assume i: "inv s" and c: "counted s"
  show ?thesis
  proof (cases "m_isInitializing s \<or> all_loaded s")
    case True
    with c show ?thesis
      by (simp add: initializeCaches_def split: option.splits)
  next
    case False
    then have idle: "suspended s = Map.empty" using i inv_idle by blast
    from False i have wc: "m_widgetComponentCache s = None"
      by (auto simp add: inv_def)
    from c idle wc False show ?thesis
      by (cases browser)
        (simp_all add: initializeCaches_def Let_def count_defs in_flight_def)
  qed
qed

lemma counted_resume:
  assumes i: "inv s" and c: "counted s" and p: "suspended s p = Some st"
  shows "counted (resume p st s)"
proof -
  note u = inv_unique [OF i p]
  note wc = inv_busy_component [OF i p]
  show ?thesis
  proof (cases st)
    case AwaitWidgetCache
    with c u wc show ?thesis
      by (auto simp add: count_defs in_flight_def split: if_splits)
  next
    case AwaitWidgetTypeCache
    with c u wc show ?thesis
      by (auto simp add: count_defs in_flight_def split: if_splits)
  next
    case AwaitWidgetComponentCache
    with c u wc show ?thesis
      by (auto simp add: count_defs in_flight_def split: if_splits)
  qed
qed

lemma counted_abort:
  assumes i: "inv s" and c: "counted s" and p: "suspended s p = Some st"
  shows "counted (abort p e s)"
proof -
  note u = inv_unique [OF i p]
  note wc = inv_busy_component [OF i p]
  from c u wc show ?thesis
    by (auto simp add: count_defs abort_def in_flight_def split: if_splits)
qed

lemma counted_step: "inv s \<Longrightarrow> counted s \<Longrightarrow> counted (step browser a s)"
proof (cases a)
  case Call
  assume "inv s" "counted s"
  with Call show ?thesis using counted_Call by simp
next
  case (ImportResolves p)
  assume "inv s" "counted s"
  with ImportResolves show ?thesis
    by (cases "suspended s p") (simp_all add: counted_resume)
next
  case (ImportRejects p e)
  assume "inv s" "counted s"
  with ImportRejects show ?thesis
    by (cases "suspended s p") (simp_all add: counted_abort)
qed

lemma reachable_counted: "reachable browser s \<Longrightarrow> counted s"
  by (induction rule: reachable.induct)
    (simp_all add: counted_initial counted_step reachable_inv)


lemma reachable_run: "reachable browser s \<Longrightarrow> reachable browser (run browser acts s)"
proof (induction acts arbitrary: s)
  case Nil
  then show ?case by (simp add: run_def)
next
  case (Cons a acts)
  from Cons.prems have "reachable browser (step browser a s)"
    by (rule reachable.after_step)
  from Cons.IH [OF this] show ?case by (simp add: run_def)
qed

lemma populated_initial: "populated initial_state"
  by (simp add: populated_def initial_state_def written_def)

lemma populated_step: "populated s \<Longrightarrow> populated (step browser a s)"
proof (cases a)
  case Call
  assume "populated s"
  with Call show ?thesis
    by (cases browser)
      (auto simp add: populated_def written_def initializeCaches_def Let_def
        split: option.splits)
next
  case (ImportResolves p)
  assume ps: "populated s"
  show ?thesis
  proof (cases "suspended s p")
    case None
    with ps ImportResolves show ?thesis by simp
  next
    case (Some st)
    with ps ImportResolves show ?thesis
      by (cases st) (auto simp add: populated_def written_def)
  qed
next
  case (ImportRejects p e)
  assume "populated s"
  with ImportRejects show ?thesis
    by (cases "suspended s p") (auto simp add: populated_def written_def abort_def)
qed

lemma reachable_populated: "reachable browser s \<Longrightarrow> populated s"
  by (induction rule: reachable.induct) (simp_all add: populated_initial populated_step)

lemma promise_reset_only_by_failure:
  assumes "m_initPromise s \<noteq> None" and "m_initPromise (step browser a s) = None"
  shows "\<exists>p e. a = ImportRejects p e \<and> suspended s p \<noteq> None"
proof (cases a)
  case Call
  with assms show ?thesis
    by (cases browser) (auto simp add: initializeCaches_def Let_def split: if_splits option.splits)
next
  case (ImportResolves p)
  with assms show ?thesis
    by (cases "suspended s p"; cases "the (suspended s p)") auto
next
  case (ImportRejects p e)
  with assms show ?thesis
    by (cases "suspended s p") auto
qed

lemma flag_reset_when_settled:
  assumes i: "inv s" and f: "m_isInitializing s" and g: "\<not> m_isInitializing (step browser a s)"
  shows "\<exists>p. suspended s p \<noteq> None \<and> \<not> in_flight (step browser a s)
           \<and> (a = ImportResolves p \<or> (\<exists>e. a = ImportRejects p e))"
proof (cases a)
  case Call
  with f g show ?thesis
    by (simp add: initializeCaches_def split: option.splits)
next
  case (ImportResolves p)
  show ?thesis
  proof (cases "suspended s p")
    case None
    with ImportResolves f g show ?thesis by simp
  next
    case (Some st)
    note u = inv_unique [OF i Some]
    from ImportResolves Some f g have "st = AwaitWidgetComponentCache"
      by (cases st) simp_all
    with ImportResolves Some u show ?thesis
      by (simp add: in_flight_def)
  qed
next
  case (ImportRejects p e)
  show ?thesis
  proof (cases "suspended s p")
    case None
    with ImportRejects f g show ?thesis by simp
  next
    case (Some st)
    note u = inv_unique [OF i Some]
    with ImportRejects Some show ?thesis
      by (simp add: in_flight_def abort_def)
  qed
qed

lemma later_call_awaits:
  assumes i: "inv s" and b: "in_flight s \<or> all_loaded s"
  shows "\<exists>p. initializeCaches browser s = (Awaits p, s) \<and> m_initPromise s = Some p
           \<and> (in_flight s \<longrightarrow> suspended s p \<noteq> None \<and> promises s ! p = Pending)
           \<and> (all_loaded s \<longrightarrow> promises s ! p = Fulfilled)"
proof (cases "in_flight s")
  case True
  then obtain p st where p: "suspended s p = Some st"
    by (auto simp add: in_flight_def fun_eq_iff)
  with i have a: "m_isInitializing s" "m_initPromise s = Some p" "promises s ! p = Pending"
    by (simp_all add: inv_def)
  from inv_busy_component [OF i p] have "\<not> all_loaded s"
    by (simp add: all_loaded_def)
  with a p show ?thesis
    by (simp add: initializeCaches_def)
next
  case False
  with b have l: "all_loaded s" by simp
  then have "m_widgetComponentCache s \<noteq> None" by (simp add: all_loaded_def)
  with i obtain p where "m_initPromise s = Some p" "promises s ! p = Fulfilled"
    by (auto simp add: inv_def)
  with l False show ?thesis
    by (simp add: initializeCaches_def)
qed

lemma settled_resets_flag:
  assumes i: "inv s" and f: "in_flight s" and g: "\<not> in_flight (step browser a s)"
  shows "\<not> m_isInitializing (step browser a s)"
proof (cases a)
  case Call
  from f obtain p st where p: "suspended s p = Some st"
    by (auto simp add: in_flight_def fun_eq_iff)
  with i have "m_isInitializing s" by (simp add: inv_def)
  with Call have "step browser a s = s"
    by (simp add: initializeCaches_def split: option.splits)
  with f g show ?thesis by simp
next
  case (ImportResolves p)
  show ?thesis
  proof (cases "suspended s p")
    case None
    with ImportResolves f g show ?thesis by simp
  next
    case (Some st)
    with ImportResolves g show ?thesis
      by (cases st) (simp_all add: in_flight_def)
  qed
next
  case (ImportRejects p e)
  show ?thesis
  proof (cases "suspended s p")
    case None
    with ImportRejects f g show ?thesis by simp
  next
    case (Some st)
    with ImportRejects show ?thesis by (simp add: abort_def)
  qed
qed

lemma failure_resets_promise:
  assumes "suspended s p \<noteq> None"
  shows "m_initPromise (step browser (ImportRejects p e) s) = None
     \<and> \<not> m_isInitializing (step browser (ImportRejects p e) s)"
  using assms by (cases "suspended s p") (simp_all add: abort_def)

lemma distinct_evaluate: "distinct done \<Longrightarrow> distinct (evaluate c done)"
  by (simp add: evaluate_def)

lemma constructed_step:
  "distinct (constructed s) \<Longrightarrow> distinct (constructed (step browser a s))"
proof (cases a)
  case Call
  assume "distinct (constructed s)"
  with Call show ?thesis
    by (cases browser) (simp_all add: initializeCaches_def Let_def split: option.splits)
next
  case (ImportResolves p)
  assume d: "distinct (constructed s)"
  show ?thesis
  proof (cases "suspended s p")
    case None
    with d ImportResolves show ?thesis by simp
  next
    case (Some st)
    with d ImportResolves show ?thesis
      by (cases st) (simp_all add: distinct_evaluate)
  qed
next
  case (ImportRejects p e)
  assume "distinct (constructed s)"
  with ImportRejects show ?thesis
    by (cases "suspended s p") (simp_all add: abort_def)
qed

lemma reachable_constructed: "reachable browser s \<Longrightarrow> distinct (constructed s)"
  by (induction rule: reachable.induct) (simp_all add: initial_state_def constructed_step)

lemma distinct_count_le_1: "distinct xs \<Longrightarrow> count_list xs x \<le> 1"
  by (induction xs) auto

text \<open>An instance held in a variable has been constructed.\<close>

lemma stored_step:
  assumes "(m_widgetCache s \<noteq> None \<longrightarrow> widgetCache \<in> set (constructed s))
         \<and> (m_widgetTypeCache s \<noteq> None \<longrightarrow> widgetTypeCache \<in> set (constructed s))
         \<and> (m_widgetComponentCache s \<noteq> None \<longrightarrow> widgetComponentCache \<in> set (constructed s))"
  shows "(m_widgetCache (step browser a s) \<noteq> None \<longrightarrow>
            widgetCache \<in> set (constructed (step browser a s)))
       \<and> (m_widgetTypeCache (step browser a s) \<noteq> None \<longrightarrow>
            widgetTypeCache \<in> set (constructed (step browser a s)))
       \<and> (m_widgetComponentCache (step browser a s) \<noteq> None \<longrightarrow>
            widgetComponentCache \<in> set (constructed (step browser a s)))"
proof (cases a)
  case Call
  with assms show ?thesis
    by (cases browser) (simp_all add: initializeCaches_def Let_def split: option.splits)
next
  case (ImportResolves p)
  show ?thesis
  proof (cases "suspended s p")
    case None
    with assms ImportResolves show ?thesis by simp
  next
    case (Some st)
    with assms ImportResolves show ?thesis
      by (cases st) (simp_all add: evaluate_def)
  qed
next
  case (ImportRejects p e)
  with assms show ?thesis
    by (cases "suspended s p") (simp_all add: abort_def)
qed

lemma reachable_stored:
  "reachable browser s \<Longrightarrow>
     (m_widgetCache s \<noteq> None \<longrightarrow> widgetCache \<in> set (constructed s))
   \<and> (m_widgetTypeCache s \<noteq> None \<longrightarrow> widgetTypeCache \<in> set (constructed s))
   \<and> (m_widgetComponentCache s \<noteq> None \<longrightarrow> widgetComponentCache \<in> set (constructed s))"
proof (induction rule: reachable.induct)
  case at_start
  show ?case by (simp add: initial_state_def)
next
  case (after_step s a)
  from after_step(2) show ?case by (rule stored_step)
qed

subsection \<open>C5: initializeCaches starts at most one initialization at a time\<close>

text \<open>
  C5, as stated, fails in its last part: the initializing flag is reset also when the
  initialization succeeds. In a browser, after a call and three resolved imports the
  flag, set until then, is false, the promise is fulfilled and no failure was logged.
\<close>

theorem flag_reset_on_success:
  "m_isInitializing (run True [Call, ImportResolves 0, ImportResolves 0] initial_state)
   \<and> \<not> m_isInitializing
        (run True [Call, ImportResolves 0, ImportResolves 0, ImportResolves 0] initial_state)
   \<and> promises (run True [Call, ImportResolves 0, ImportResolves 0, ImportResolves 0]
        initial_state) = [Fulfilled]
   \<and> failures (run True [Call, ImportResolves 0, ImportResolves 0, ImportResolves 0]
        initial_state) = 0"
  by (simp add: run_def initializeCaches_def initial_state_def all_loaded_def Let_def
      failures_def written_def)

text \<open>
  C5, amended. In every state the module can reach, a call of initializeCaches made
  while an initialization is in flight, or after one has completed (all three
  instances stored), starts nothing: it leaves the state as it is and awaits the
  memoized promise, which is the pending promise of the initialization in flight, or
  the fulfilled promise of the completed one. Each of the three cache instances is
  constructed at most once, and an instance held in a variable has been constructed.
  The initializations started are at most one more than those that failed, at most one
  succeeds, and no instance is loaded more often than initializations were started.
  The memoized promise is reset to null only when an awaited import of the
  initialization fails, and every such failure resets it. The initializing flag is
  reset whenever the initialization in flight settles, on success as on failure, and
  at no other moment.
\<close>

theorem initializeCaches_memoized:
  assumes "reachable browser s"
  shows "(in_flight s \<or> all_loaded s \<longrightarrow>
            (\<exists>p. initializeCaches browser s = (Awaits p, s) \<and> m_initPromise s = Some p
               \<and> (in_flight s \<longrightarrow> suspended s p \<noteq> None \<and> promises s ! p = Pending)
               \<and> (all_loaded s \<longrightarrow> promises s ! p = Fulfilled)))
     \<and> starts s \<le> failures s + 1
     \<and> successes s \<le> 1
     \<and> written LOG ''Widget cache loaded'' s \<le> starts s
     \<and> written LOG ''Widget type cache loaded'' s \<le> starts s
     \<and> written LOG ''Widget component cache loaded'' s \<le> starts s
     \<and> (\<forall>a. m_initPromise s \<noteq> None \<and> m_initPromise (step browser a s) = None \<longrightarrow>
            (\<exists>p e. a = ImportRejects p e \<and> suspended s p \<noteq> None))
     \<and> (\<forall>a. m_isInitializing s \<and> \<not> m_isInitializing (step browser a s) \<longrightarrow>
            (\<exists>p. suspended s p \<noteq> None \<and> \<not> in_flight (step browser a s)
               \<and> (a = ImportResolves p \<or> (\<exists>e. a = ImportRejects p e))))
     \<and> (\<forall>a. in_flight s \<and> \<not> in_flight (step browser a s) \<longrightarrow>
            \<not> m_isInitializing (step browser a s))
     \<and> (\<forall>p e. suspended s p \<noteq> None \<longrightarrow>
            m_initPromise (step browser (ImportRejects p e) s) = None
            \<and> \<not> m_isInitializing (step browser (ImportRejects p e) s))
     \<and> (\<forall>c. count_list (constructed s) c \<le> 1)
     \<and> (m_widgetCache s \<noteq> None \<longrightarrow> widgetCache \<in> set (constructed s))
     \<and> (m_widgetTypeCache s \<noteq> None \<longrightarrow> widgetTypeCache \<in> set (constructed s))
     \<and> (m_widgetComponentCache s \<noteq> None \<longrightarrow> widgetComponentCache \<in> set (constructed s))"
proof -
  from assms have i: "inv s" by (rule reachable_inv)
  from assms have c: "counted s" by (rule reachable_counted)
  have guard: "in_flight s \<or> all_loaded s \<longrightarrow>
            (\<exists>p. initializeCaches browser s = (Awaits p, s) \<and> m_initPromise s = Some p
               \<and> (in_flight s \<longrightarrow> suspended s p \<noteq> None \<and> promises s ! p = Pending)
               \<and> (all_loaded s \<longrightarrow> promises s ! p = Fulfilled))"
    using later_call_awaits [OF i] by blast
  from i have "\<not> (in_flight s \<and> m_widgetComponentCache s \<noteq> None)"
    by (auto simp add: inv_def)
  with c have n: "starts s \<le> failures s + 1" "successes s \<le> 1"
    by (auto simp add: counted_def ind_def split: if_splits)
  from c have l: "written LOG ''Widget cache loaded'' s \<le> starts s"
    "written LOG ''Widget type cache loaded'' s \<le> starts s"
    "written LOG ''Widget component cache loaded'' s \<le> starts s"
    by (simp_all add: counted_def)
  have pr: "\<forall>a. m_initPromise s \<noteq> None \<and> m_initPromise (step browser a s) = None \<longrightarrow>
            (\<exists>p e. a = ImportRejects p e \<and> suspended s p \<noteq> None)"
    using promise_reset_only_by_failure by blast
  have fl: "\<forall>a. m_isInitializing s \<and> \<not> m_isInitializing (step browser a s) \<longrightarrow>
            (\<exists>p. suspended s p \<noteq> None \<and> \<not> in_flight (step browser a s)
               \<and> (a = ImportResolves p \<or> (\<exists>e. a = ImportRejects p e)))"
    using flag_reset_when_settled [OF i] by blast
  have st: "\<forall>a. in_flight s \<and> \<not> in_flight (step browser a s) \<longrightarrow>
            \<not> m_isInitializing (step browser a s)"
    using settled_resets_flag [OF i] by blast
  have fr: "\<forall>p e. suspended s p \<noteq> None \<longrightarrow>
            m_initPromise (step browser (ImportRejects p e) s) = None
            \<and> \<not> m_isInitializing (step browser (ImportRejects p e) s)"
    using failure_resets_promise by blast
  have once: "\<forall>c. count_list (constructed s) c \<le> 1"
    using distinct_count_le_1 [OF reachable_constructed [OF assms]] by blast
  note held = reachable_stored [OF assms]
  from guard n l pr fl st fr once held show ?thesis by (intro conjI) blast+
qed

theorem initializeCaches_memoized_witness:
  "initializeCaches True (run True [Call] initial_state)
     = (Awaits 0, run True [Call] initial_state)
   \<and> initializeCaches True
        (run True [Call, Call, ImportResolves 0, ImportResolves 0, ImportResolves 0]
           initial_state)
     = (Awaits 0,
        run True [Call, Call, ImportResolves 0, ImportResolves 0, ImportResolves 0]
          initial_state)
   \<and> starts (run True [Call, Call, ImportResolves 0, ImportResolves 0, ImportResolves 0, Call]
        initial_state) = 1
   \<and> \<not> m_isInitializing
        (step True (ImportRejects 0 (Error ''Failed to fetch dynamically imported module''))
          (run True [Call, ImportResolves 0] initial_state))
   \<and> constructed
        (run True [Call, ImportResolves 0,
                   ImportRejects 0 (Error ''Failed to fetch dynamically imported module''),
                   Call, ImportResolves 1, ImportResolves 1, ImportResolves 1] initial_state)
       = [widgetCache, widgetTypeCache, widgetComponentCache]"
proof -
  let ?s1 = "run True [Call] initial_state"
  let ?s2 = "run True [Call, Call, ImportResolves 0, ImportResolves 0, ImportResolves 0]
               initial_state"
  let ?s3 = "run True [Call, Call, ImportResolves 0, ImportResolves 0, ImportResolves 0, Call]
               initial_state"
  let ?s4 = "run True [Call, ImportResolves 0] initial_state"
  let ?a = "ImportRejects 0 (Error ''Failed to fetch dynamically imported module'')"
  have r: "reachable True ?s1" "reachable True ?s2" "reachable True ?s3" "reachable True ?s4"
    by (rule reachable_run [OF reachable.at_start])+
  have f1: "in_flight ?s1" "m_initPromise ?s1 = Some 0"
    by (simp_all add: run_def initializeCaches_def initial_state_def all_loaded_def Let_def
        in_flight_def fun_eq_iff)
  have f2: "all_loaded ?s2" "m_initPromise ?s2 = Some 0"
    by (simp_all add: run_def initializeCaches_def initial_state_def all_loaded_def Let_def)
  have f3: "failures ?s3 = 0" "0 < starts ?s3"
    by (simp_all add: run_def initializeCaches_def initial_state_def all_loaded_def Let_def
        failures_def starts_def written_def)
  have f4: "in_flight ?s4" "\<not> in_flight (step True ?a ?s4)"
    by (simp_all add: run_def initializeCaches_def initial_state_def all_loaded_def Let_def
        in_flight_def fun_eq_iff abort_def)
  have a: "initializeCaches True ?s1 = (Awaits 0, ?s1)"
  proof -
    from initializeCaches_memoized [OF r(1)]
    have "in_flight ?s1 \<or> all_loaded ?s1 \<longrightarrow>
            (\<exists>p. initializeCaches True ?s1 = (Awaits p, ?s1) \<and> m_initPromise ?s1 = Some p
               \<and> (in_flight ?s1 \<longrightarrow> suspended ?s1 p \<noteq> None \<and> promises ?s1 ! p = Pending)
               \<and> (all_loaded ?s1 \<longrightarrow> promises ?s1 ! p = Fulfilled))"
      by (rule conjunct1)
    with f1(1) obtain p where "initializeCaches True ?s1 = (Awaits p, ?s1)"
      "m_initPromise ?s1 = Some p"
      by blast
    with f1(2) show ?thesis by (simp only: option.inject)
  qed
  have b: "initializeCaches True ?s2 = (Awaits 0, ?s2)"
  proof -
    from initializeCaches_memoized [OF r(2)]
    have "in_flight ?s2 \<or> all_loaded ?s2 \<longrightarrow>
            (\<exists>p. initializeCaches True ?s2 = (Awaits p, ?s2) \<and> m_initPromise ?s2 = Some p
               \<and> (in_flight ?s2 \<longrightarrow> suspended ?s2 p \<noteq> None \<and> promises ?s2 ! p = Pending)
               \<and> (all_loaded ?s2 \<longrightarrow> promises ?s2 ! p = Fulfilled))"
      by (rule conjunct1)
    with f2(1) obtain p where "initializeCaches True ?s2 = (Awaits p, ?s2)"
      "m_initPromise ?s2 = Some p"
      by blast
    with f2(2) show ?thesis by (simp only: option.inject)
  qed
  have c: "starts ?s3 = 1"
  proof -
    from initializeCaches_memoized [OF r(3)]
    have "starts ?s3 \<le> failures ?s3 + 1"
      by (rule conjunct1 [OF conjunct2])
    with f3 show ?thesis by linarith
  qed
  have d: "\<not> m_isInitializing (step True ?a ?s4)"
  proof -
    from initializeCaches_memoized [OF r(4)]
    have "\<forall>a. in_flight ?s4 \<and> \<not> in_flight (step True a ?s4) \<longrightarrow>
            \<not> m_isInitializing (step True a ?s4)"
      by blast
    with f4 show ?thesis by blast
  qed
  have e: "constructed
        (run True [Call, ImportResolves 0, ?a,
                   Call, ImportResolves 1, ImportResolves 1, ImportResolves 1] initial_state)
       = [widgetCache, widgetTypeCache, widgetComponentCache]"
    by (simp add: run_def initializeCaches_def initial_state_def all_loaded_def Let_def
        abort_def evaluate_def)
  from a b c d e show ?thesis by blast
qed

subsection \<open>C10: the synchronous accessors\<close>

lemma getWidgetCacheSync_result:
  "fst (getWidgetCacheSync s)
     = (case m_widgetCache s of
          None \<Rightarrow> Inl (Error ''Widget cache not yet initialized. Call initializeCaches() first.'')
        | Some c \<Rightarrow> Inr c)"
  by (simp add: getWidgetCacheSync_def split: option.splits)

lemma getWidgetTypeCacheSync_result:
  "fst (getWidgetTypeCacheSync s)
     = (case m_widgetTypeCache s of
          None \<Rightarrow>
            Inl (Error ''Widget type cache not yet initialized. Call initializeCaches() first.'')
        | Some c \<Rightarrow> Inr c)"
  by (simp add: getWidgetTypeCacheSync_def split: option.splits)

lemma getWidgetComponentCacheSync_result:
  "fst (getWidgetComponentCacheSync s)
     = (case m_widgetComponentCache s of
          None \<Rightarrow>
            Inl (Error ''Widget component cache not yet initialized. Call initializeCaches() first.'')
        | Some c \<Rightarrow> Inr c)"
  by (simp add: getWidgetComponentCacheSync_def split: option.splits)

lemma accessor_shape:
  assumes "r = (case v of None \<Rightarrow> Inl (Error m) | Some c \<Rightarrow> Inr c)"
  shows "(v = None \<longrightarrow> (\<exists>m. r = Inl (Error m)))" and "\<forall>c. r = Inr c \<longleftrightarrow> v = Some c"
    and "v = None \<Longrightarrow> isl r" and "v = Some c \<Longrightarrow> r = Inr c"
  using assms by (cases v; simp)+

text \<open>
  C10. Each synchronous accessor throws an Error when its variable is still null, and
  what it returns otherwise is the instance the variable holds. In every state the
  module can reach, an accessor throws as long as the initialization has not yet
  printed that it loaded the accessor's cache (in particular before initializeCaches
  was ever called), and once it has, the accessor returns the instance exported by
  the cache's own module.
\<close>

theorem sync_accessors:
  "(m_widgetCache s = None \<longrightarrow> (\<exists>m. fst (getWidgetCacheSync s) = Inl (Error m)))
   \<and> (m_widgetTypeCache s = None \<longrightarrow> (\<exists>m. fst (getWidgetTypeCacheSync s) = Inl (Error m)))
   \<and> (m_widgetComponentCache s = None \<longrightarrow>
        (\<exists>m. fst (getWidgetComponentCacheSync s) = Inl (Error m)))
   \<and> (\<forall>c. fst (getWidgetCacheSync s) = Inr c \<longleftrightarrow> m_widgetCache s = Some c)
   \<and> (\<forall>c. fst (getWidgetTypeCacheSync s) = Inr c \<longleftrightarrow> m_widgetTypeCache s = Some c)
   \<and> (\<forall>c. fst (getWidgetComponentCacheSync s) = Inr c \<longleftrightarrow> m_widgetComponentCache s = Some c)
   \<and> (reachable browser s \<longrightarrow>
        (if written LOG ''Widget cache loaded'' s = 0
         then isl (fst (getWidgetCacheSync s))
         else fst (getWidgetCacheSync s) = Inr widgetCache)
      \<and> (if written LOG ''Widget type cache loaded'' s = 0
         then isl (fst (getWidgetTypeCacheSync s))
         else fst (getWidgetTypeCacheSync s) = Inr widgetTypeCache)
      \<and> (if written LOG ''Widget component cache loaded'' s = 0
         then isl (fst (getWidgetComponentCacheSync s))
         else fst (getWidgetComponentCacheSync s) = Inr widgetComponentCache))"
proof -
  note w = accessor_shape [OF getWidgetCacheSync_result [of s]]
  note t = accessor_shape [OF getWidgetTypeCacheSync_result [of s]]
  note c = accessor_shape [OF getWidgetComponentCacheSync_result [of s]]
  have reached: "(if written LOG ''Widget cache loaded'' s = 0
         then isl (fst (getWidgetCacheSync s))
         else fst (getWidgetCacheSync s) = Inr widgetCache)
      \<and> (if written LOG ''Widget type cache loaded'' s = 0
         then isl (fst (getWidgetTypeCacheSync s))
         else fst (getWidgetTypeCacheSync s) = Inr widgetTypeCache)
      \<and> (if written LOG ''Widget component cache loaded'' s = 0
         then isl (fst (getWidgetComponentCacheSync s))
         else fst (getWidgetComponentCacheSync s) = Inr widgetComponentCache)"
    if "reachable browser s"
  proof -
    from that have p: "populated s" by (rule reachable_populated)
    have a: "if written LOG ''Widget cache loaded'' s = 0
         then isl (fst (getWidgetCacheSync s))
         else fst (getWidgetCacheSync s) = Inr widgetCache"
    proof (cases "written LOG ''Widget cache loaded'' s = 0")
      case True
      with p have "m_widgetCache s = None" by (simp add: populated_def)
      with True w(3) show ?thesis by simp
    next
      case False
      with p have "m_widgetCache s = Some widgetCache" by (auto simp add: populated_def)
      with False w(4) show ?thesis by simp
    qed
    have b: "if written LOG ''Widget type cache loaded'' s = 0
         then isl (fst (getWidgetTypeCacheSync s))
         else fst (getWidgetTypeCacheSync s) = Inr widgetTypeCache"
    proof (cases "written LOG ''Widget type cache loaded'' s = 0")
      case True
      with p have "m_widgetTypeCache s = None" by (simp add: populated_def)
      with True t(3) show ?thesis by simp
    next
      case False
      with p have "m_widgetTypeCache s = Some widgetTypeCache" by (auto simp add: populated_def)
      with False t(4) show ?thesis by simp
    qed
    have c': "if written LOG ''Widget component cache loaded'' s = 0
         then isl (fst (getWidgetComponentCacheSync s))
         else fst (getWidgetComponentCacheSync s) = Inr widgetComponentCache"
    proof (cases "written LOG ''Widget component cache loaded'' s = 0")
      case True
      with p have "m_widgetComponentCache s = None" by (simp add: populated_def)
      with True c(3) show ?thesis by simp
    next
      case False
      with p have "m_widgetComponentCache s = Some widgetComponentCache" by (auto simp add: populated_def)
      with False c(4) show ?thesis by simp
    qed
    from a b c' show ?thesis by (intro conjI)
  qed
  from w(1,2) t(1,2) c(1,2) reached show ?thesis by (intro conjI impI) blast+
qed

theorem sync_accessors_witness:
  "fst (getWidgetCacheSync initial_state)
     = Inl (Error ''Widget cache not yet initialized. Call initializeCaches() first.'')
   \<and> fst (getWidgetCacheSync (run True [Call, ImportResolves 0] initial_state)) = Inr widgetCache
   \<and> isl (fst (getWidgetTypeCacheSync (run True [Call, ImportResolves 0] initial_state)))
   \<and> isl (fst (getWidgetComponentCacheSync (run True [Call, ImportResolves 0] initial_state)))"
proof -
  let ?s = "run True [Call, ImportResolves 0] initial_state"
  have r: "reachable True ?s"
    by (rule reachable_run [OF reachable.at_start])
  have w: "written LOG ''Widget cache loaded'' ?s \<noteq> 0"
    "written LOG ''Widget type cache loaded'' ?s = 0"
    "written LOG ''Widget component cache loaded'' ?s = 0"
    by (simp_all add: run_def initializeCaches_def initial_state_def all_loaded_def Let_def
        written_def)
  have "fst (getWidgetCacheSync initial_state)
     = Inl (Error ''Widget cache not yet initialized. Call initializeCaches() first.'')"
    by (simp add: getWidgetCacheSync_def initial_state_def)
  with sync_accessors [of ?s True] r w show ?thesis
    by simp
qed

subsection \<open>C6: startup waits a bounded time; what follows a failure\<close>

lemma race_bound: "snd (Promise_race p limit) \<le> limit"
  by (cases p) (simp_all add: Promise_race_def)

lemma say_fields [simp]:
  "waited (say l msg st) = waited st"
  "isInitialized (say l msg st) = isInitialized st"
  "init_error (say l msg st) = init_error st"
  "lines (say l msg st) = lines st @ [(l, msg)]"
  by (simp_all add: say_def)

lemma collect_fields:
  "waited (snd (collect a b st)) = waited st"
  "init_error (snd (collect a b st)) = init_error st"
  "set (lines st) \<subseteq> set (lines (snd (collect a b st)))"
  by (auto simp add: collect_def Let_def split: option.splits)

lemma collect_promises:
  "fst (collect a b st)
     = (case promise_of a of Some p \<Rightarrow> [p] | None \<Rightarrow> [])
       @ (case promise_of b of Some p \<Rightarrow> [p] | None \<Rightarrow> [])"
  by (simp add: collect_def Let_def split: option.splits)

lemma wait_for_fields:
  "waited st \<le> 10000 \<Longrightarrow> waited (wait_for ps st) \<le> 10000"
  "init_error (wait_for ps st) = init_error st"
  "set (lines st) \<subseteq> set (lines (wait_for ps st))"
  using race_bound [of "Promise_all ps" 10000]
  by (auto simp add: wait_for_def Let_def split: prod.splits sum.splits)

lemma wait_for_warns:
  "ps \<noteq> [] \<Longrightarrow> isl (fst (Promise_race (Promise_all ps) 10000)) \<Longrightarrow>
   (WARN, ''IndexedDB initialization failed or timed out:'') \<in> set (lines (wait_for ps st))"
  by (auto simp add: wait_for_def Let_def split: prod.splits sum.splits)

lemma inspect_cases:
  "inspect m call msg st = Running (say LOG msg st)
   \<or> (\<exists>e. inspect m call msg st = Throws e st)"
  by (simp add: inspect_def split: js.splits option.splits)

lemma inspect_works:
  "works m \<Longrightarrow> inspect m keys_throws msg st = Running (say LOG msg st)"
  "works m \<Longrightarrow> inspect m queryIn_throws msg st = Running (say LOG msg st)"
  by (simp_all add: works_def inspect_def split: js.splits)

lemma check_storage_cases:
  "(check_storage estimate st = Stuck st \<and> estimate = Some Never)
   \<or> (\<exists>e. check_storage estimate st = Throws e st)
   \<or> (\<exists>st'. check_storage estimate st = Running st' \<and> waited st' = waited st
          \<and> init_error st' = init_error st \<and> set (lines st) \<subseteq> set (lines st'))"
  by (auto simp add: check_storage_def split: option.splits settles.splits)

lemma check_storage_ok:
  "estimate_ok estimate \<Longrightarrow>
   \<exists>st'. check_storage estimate st = Running st' \<and> waited st' = waited st
          \<and> init_error st' = init_error st \<and> set (lines st) \<subseteq> set (lines st')"
  by (auto simp add: check_storage_def estimate_ok_def split: option.splits settles.splits)

lemma and_then_Running: "and_then (Running st) g = g st"
  by (simp add: and_then_def)

lemma and_then_Throws: "and_then (Throws e st) g = Throws e st"
  by (simp add: and_then_def)

lemma outcome_ok_weaken:
  "outcome_ok st' estimate f \<Longrightarrow> waited st' = waited st \<Longrightarrow> init_error st' = init_error st \<Longrightarrow>
   set (lines st) \<subseteq> set (lines st') \<Longrightarrow> outcome_ok st estimate f"
  by (auto simp add: outcome_ok_def)

lemma inspect_then:
  assumes "\<And>st'. waited st' = waited st \<Longrightarrow> init_error st' = init_error st \<Longrightarrow>
             set (lines st) \<subseteq> set (lines st') \<Longrightarrow> outcome_ok st' estimate (g st')"
  shows "outcome_ok st estimate (and_then (inspect m call msg st) g)"
proof -
  from inspect_cases [of m call msg st]
  consider (run) "inspect m call msg st = Running (say LOG msg st)"
    | (thr) e where "inspect m call msg st = Throws e st"
    by blast
  then show ?thesis
  proof cases
    case run
    have "outcome_ok (say LOG msg st) estimate (g (say LOG msg st))"
      by (rule assms) auto
    then have "outcome_ok st estimate (g (say LOG msg st))"
      by (rule outcome_ok_weaken) auto
    with run show ?thesis by (simp add: and_then_Running)
  next
    case thr
    then show ?thesis by (simp add: and_then_Throws outcome_ok_def)
  qed
qed

lemma finish_outcome:
  "outcome_ok st estimate
     (and_then (check_storage estimate st) (\<lambda>st5.
        Running ((say LOG ''Cache initialization complete, enabling React providers''
                   (say LOG ''Waiting for React providers to be ready...'' st5))
                 \<lparr> isInitialized := True \<rparr>)))"
  using check_storage_cases [of estimate st]
  by (auto simp add: and_then_def outcome_ok_def)

lemma diagnostics_outcome: "outcome_ok st estimate (diagnostics a b estimate st)"
  unfolding diagnostics_def
proof (rule inspect_then, rule inspect_then, rule inspect_then, rule inspect_then)
  fix st1 st2 st3 st4 :: initializer_state
  assume f: "waited st1 = waited st" "init_error st1 = init_error st"
    "set (lines st) \<subseteq> set (lines st1)"
    "waited st2 = waited st1" "init_error st2 = init_error st1"
    "set (lines st1) \<subseteq> set (lines st2)"
    "waited st3 = waited st2" "init_error st3 = init_error st2"
    "set (lines st2) \<subseteq> set (lines st3)"
    "waited st4 = waited st3" "init_error st4 = init_error st3"
    "set (lines st3) \<subseteq> set (lines st4)"
  show "outcome_ok st4 estimate
     (and_then (check_storage estimate st4) (\<lambda>st5.
        Running ((say LOG ''Cache initialization complete, enabling React providers''
                   (say LOG ''Waiting for React providers to be ready...'' st5))
                 \<lparr> isInitialized := True \<rparr>)))"
    by (rule finish_outcome)
qed

lemma diagnostics_ready:
  assumes "works a" and "works b" and "estimate_ok estimate"
  shows "\<exists>st'. diagnostics a b estimate st = Running st' \<and> isInitialized st'
           \<and> init_error st' = init_error st \<and> waited st' = waited st
           \<and> set (lines st) \<subseteq> set (lines st')"
proof -
  let ?st4 = "say LOG ''All widget types from cache map:''
                (say LOG ''All widgets from cache map:''
                  (say LOG ''Widget type cache keys:'' (say LOG ''Widget cache keys:'' st)))"
  from check_storage_ok [OF assms(3), of ?st4]
  obtain st5 where c: "check_storage estimate ?st4 = Running st5" "waited st5 = waited ?st4"
    "init_error st5 = init_error ?st4" "set (lines ?st4) \<subseteq> set (lines st5)"
    by blast
  have "diagnostics a b estimate st =
          Running ((say LOG ''Cache initialization complete, enabling React providers''
                     (say LOG ''Waiting for React providers to be ready...'' st5))
                   \<lparr> isInitialized := True \<rparr>)"
    using assms(1,2) c(1)
    by (simp add: diagnostics_def inspect_works and_then_Running)
  with c(2,3,4) show ?thesis by auto
qed

lemma try_block_outcome:
  "waited (state_of (try_block env)) \<le> 10000
   \<and> init_error (state_of (try_block env)) = None
   \<and> (case try_block env of
         Running st \<Rightarrow> isInitialized st
       | Throws e st \<Rightarrow> True
       | Stuck st \<Rightarrow> env_initializeCaches env = Never \<or> env_estimate env = Some Never)"
proof (cases "env_initializeCaches env")
  case Never
  then show ?thesis by (simp add: try_block_def)
next
  case (Rejects e)
  then show ?thesis by (simp add: try_block_def)
next
  case (Resolves u)
  show ?thesis
  proof (cases "fst (getWidgetCacheSync (env_module env))")
    case (Inl e)
    with Resolves show ?thesis by (simp add: try_block_def)
  next
    case wc: (Inr wc)
    show ?thesis
    proof (cases "fst (getWidgetTypeCacheSync (env_module env))")
      case (Inl e)
      with Resolves wc show ?thesis by (simp add: try_block_def)
    next
      case wtc: (Inr wtc)
      let ?st0 = "say LOG ''Initializing IndexedDB caches...''
                    \<lparr> isInitialized = False, init_error = None, lines = [], waited = 0 \<rparr>"
      let ?c = "collect (env_cacheMap env wc) (env_cacheMap env wtc) ?st0"
      let ?st3 = "say LOG ''Checking cache contents after initialization:''
                    (say LOG ''Caches initialized with 0 widgets and 0 widget types''
                      (say LOG ''Providers will load data on-demand using cache-first operations''
                        (say LOG ''Cache initialization complete - skipping data preloading''
                           (wait_for (fst ?c) (snd ?c)))))"
      let ?f = "diagnostics (env_cacheMap env wc) (env_cacheMap env wtc) (env_estimate env) ?st3"
      have t: "try_block env = ?f"
        using Resolves wc wtc by (simp add: try_block_def Let_def split: prod.splits)
      have "waited (snd ?c) \<le> 10000" "init_error (snd ?c) = None"
        by (simp_all add: collect_fields)
      then have w: "waited ?st3 \<le> 10000" "init_error ?st3 = None"
        by (simp_all add: wait_for_fields)
      from diagnostics_outcome [of ?st3 "env_estimate env" "env_cacheMap env wc"
          "env_cacheMap env wtc"] w
      have "waited (state_of ?f) \<le> 10000 \<and> init_error (state_of ?f) = None
         \<and> (case ?f of
               Running st \<Rightarrow> isInitialized st
             | Throws e st \<Rightarrow> True
             | Stuck st \<Rightarrow> env_estimate env = Some Never)"
        by (simp add: outcome_ok_def)
      then show ?thesis
        unfolding t by (cases ?f) simp_all
    qed
  qed
qed

lemma try_block_ready:
  assumes "ready env"
  shows "\<exists>st. try_block env = Running st \<and> isInitialized st \<and> init_error st = None
           \<and> (race_lost env \<longrightarrow>
                (WARN, ''IndexedDB initialization failed or timed out:'') \<in> set (lines st))"
proof -
  from assms obtain wc wtc where m: "m_widgetCache (env_module env) = Some wc"
    "m_widgetTypeCache (env_module env) = Some wtc"
    and w: "works (env_cacheMap env wc)" "works (env_cacheMap env wtc)"
    and e: "estimate_ok (env_estimate env)" and r: "env_initializeCaches env = Resolves ()"
    by (auto simp add: ready_def split: option.splits)
  let ?st0 = "say LOG ''Initializing IndexedDB caches...''
                \<lparr> isInitialized = False, init_error = None, lines = [], waited = 0 \<rparr>"
  let ?c = "collect (env_cacheMap env wc) (env_cacheMap env wtc) ?st0"
  let ?st2 = "wait_for (fst ?c) (snd ?c)"
  let ?st3 = "say LOG ''Checking cache contents after initialization:''
                (say LOG ''Caches initialized with 0 widgets and 0 widget types''
                  (say LOG ''Providers will load data on-demand using cache-first operations''
                    (say LOG ''Cache initialization complete - skipping data preloading''
                       ?st2)))"
  have t: "try_block env
             = diagnostics (env_cacheMap env wc) (env_cacheMap env wtc) (env_estimate env) ?st3"
    using r m
    by (simp add: try_block_def Let_def getWidgetCacheSync_def getWidgetTypeCacheSync_def
        split: prod.splits)
  from diagnostics_ready [OF w e, of ?st3]
  obtain st' where d: "diagnostics (env_cacheMap env wc) (env_cacheMap env wtc)
        (env_estimate env) ?st3 = Running st'"
    "isInitialized st'" "init_error st' = init_error ?st3" "set (lines ?st3) \<subseteq> set (lines st')"
    by blast
  have ps: "fst ?c = init_promises env"
    using m by (simp add: collect_promises init_promises_def)
  have "init_error ?st3 = None"
    by (simp add: wait_for_fields collect_fields)
  moreover have "(WARN, ''IndexedDB initialization failed or timed out:'') \<in> set (lines st')"
    if "race_lost env"
  proof -
    from that ps have "(WARN, ''IndexedDB initialization failed or timed out:'')
        \<in> set (lines ?st2)"
      by (simp add: race_lost_def wait_for_warns)
    then have "(WARN, ''IndexedDB initialization failed or timed out:'') \<in> set (lines ?st3)"
      by simp
    with d(4) show ?thesis by blast
  qed
  ultimately show ?thesis using t d by auto
qed

text \<open>
  What the startup does achieve. It waits at most 10 seconds (10000 milliseconds) for
  the IndexedDB initialization promises. It marks the application initialized in every
  run in which the awaited initializeCaches() and storage estimate settle. When nothing
  but these promises goes wrong, a rejection or the timeout is logged as a warning and
  the startup goes on: no error is set and the application is rendered.
\<close>

lemma startup_wait_bounded:
  "waited (initializeApp env) \<le> 10000
   \<and> (env_initializeCaches env \<noteq> Never \<and> env_estimate env \<noteq> Some Never \<longrightarrow>
        isInitialized (initializeApp env))
   \<and> (ready env \<longrightarrow>
        isInitialized (initializeApp env) \<and> init_error (initializeApp env) = None
        \<and> render (initializeApp env) = Children
        \<and> (race_lost env \<longrightarrow>
             (WARN, ''IndexedDB initialization failed or timed out:'')
               \<in> set (lines (initializeApp env))))"
proof -
  note o = try_block_outcome [of env]
  have bound: "waited (initializeApp env) \<le> 10000"
    using o by (cases "try_block env") (simp_all add: initializeApp_def)
  have marked: "env_initializeCaches env \<noteq> Never \<and> env_estimate env \<noteq> Some Never \<longrightarrow>
        isInitialized (initializeApp env)"
    using o by (cases "try_block env") (auto simp add: initializeApp_def)
  have degraded: "ready env \<longrightarrow>
        isInitialized (initializeApp env) \<and> init_error (initializeApp env) = None
        \<and> render (initializeApp env) = Children
        \<and> (race_lost env \<longrightarrow>
             (WARN, ''IndexedDB initialization failed or timed out:'')
               \<in> set (lines (initializeApp env)))"
  proof
    assume "ready env"
    from try_block_ready [OF this]
    obtain st where "try_block env = Running st" "isInitialized st" "init_error st = None"
      "race_lost env \<longrightarrow>
         (WARN, ''IndexedDB initialization failed or timed out:'') \<in> set (lines st)"
      by blast
    then show "isInitialized (initializeApp env) \<and> init_error (initializeApp env) = None
        \<and> render (initializeApp env) = Children
        \<and> (race_lost env \<longrightarrow>
             (WARN, ''IndexedDB initialization failed or timed out:'')
               \<in> set (lines (initializeApp env)))"
      by (simp add: initializeApp_def render_def)
  qed
  from bound marked degraded show ?thesis by blast
qed

lemma startup_wait_bounded_example:
  "waited (initializeApp (example_env (Val NeverSettles) (Val (ResolvesAt 500)))) = 10000
   \<and> isInitialized (initializeApp (example_env (Val NeverSettles) (Val (ResolvesAt 500))))
   \<and> render (initializeApp (example_env (Val NeverSettles) (Val (ResolvesAt 500)))) = Children
   \<and> (WARN, ''IndexedDB initialization failed or timed out:'')
        \<in> set (lines (initializeApp (example_env (Val NeverSettles) (Val (ResolvesAt 500)))))
   \<and> render (initializeApp
        (example_env (Val (RejectsAt 40 (NonError ''QuotaExceeded''))) Undefined)) = Children
   \<and> waited (initializeApp (example_env (Val (ResolvesAt 300)) (Val (ResolvesAt 500)))) = 500"
proof -
  let ?e1 = "example_env (Val NeverSettles) (Val (ResolvesAt 500))"
  let ?e2 = "example_env (Val (RejectsAt 40 (NonError ''QuotaExceeded''))) Undefined"
  let ?e3 = "example_env (Val (ResolvesAt 300)) (Val (ResolvesAt 500))"
  have m: "m_widgetCache loaded_module = Some widgetCache"
    "m_widgetTypeCache loaded_module = Some widgetTypeCache"
    by (simp_all add: loaded_module_def run_def initializeCaches_def initial_state_def
        all_loaded_def Let_def)
  have r: "ready ?e1" "ready ?e2"
    using m by (simp_all add: ready_def example_env_def works_def working_map_def estimate_ok_def)
  have l: "race_lost ?e1"
    using m by (simp add: race_lost_def init_promises_def example_env_def working_map_def
        promise_of_def Promise_all_def Promise_race_def)
  have w: "waited (initializeApp ?e1) = 10000" "waited (initializeApp ?e3) = 500"
    using m by (simp_all add: initializeApp_def try_block_def example_env_def working_map_def
        getWidgetCacheSync_def getWidgetTypeCacheSync_def collect_def promise_of_def
        wait_for_def Promise_all_def Promise_race_def diagnostics_def inspect_def
        check_storage_def and_then_def Let_def say_def)
  from startup_wait_bounded [of ?e1] r(1) l
  have a: "isInitialized (initializeApp ?e1)" "render (initializeApp ?e1) = Children"
    "(WARN, ''IndexedDB initialization failed or timed out:'') \<in> set (lines (initializeApp ?e1))"
    by blast+
  from startup_wait_bounded [of ?e2] r(2)
  have b: "render (initializeApp ?e2) = Children"
    by blast
  from w a b show ?thesis by blast
qed

text \<open>
  Whatever initializeApp throws outside that wait ends in the catch block: the error
  is logged and its message set, and the component, though marked initialized, renders
  the warning panel in place of the application (the application only when the message
  is empty). This covers a rejected initializeCaches and, with everything else in
  working order, a rejected storage estimate.
\<close>

lemma rejected_estimate_throws:
  assumes "works a" and "works b"
  shows "\<exists>st'. diagnostics a b (Some (Rejects e)) st = Throws e st'"
  using assms
  by (simp add: diagnostics_def inspect_works and_then_Running and_then_Throws check_storage_def)

lemma thrown_error_shows_panel:
  assumes "env_initializeCaches env = Rejects e
         \<or> (env_initializeCaches env = Resolves ()
             \<and> (\<exists>wc wtc. m_widgetCache (env_module env) = Some wc
                   \<and> m_widgetTypeCache (env_module env) = Some wtc
                   \<and> works (env_cacheMap env wc) \<and> works (env_cacheMap env wtc))
             \<and> env_estimate env = Some (Rejects e))"
  shows "isInitialized (initializeApp env)
     \<and> init_error (initializeApp env) = Some (message_of e)
     \<and> (ERROR, ''Failed to initialize caches:'') \<in> set (lines (initializeApp env))
     \<and> render (initializeApp env)
         = (if message_of e = [] then Children else WarningPanel (message_of e))"
proof -
  have "\<exists>st. try_block env = Throws e st"
    using assms
  proof (elim disjE conjE exE)
    assume "env_initializeCaches env = Rejects e"
    then show ?thesis by (simp add: try_block_def)
  next
    fix wc wtc
    assume r: "env_initializeCaches env = Resolves ()"
      and m: "m_widgetCache (env_module env) = Some wc"
        "m_widgetTypeCache (env_module env) = Some wtc"
      and w: "works (env_cacheMap env wc)" "works (env_cacheMap env wtc)"
      and e: "env_estimate env = Some (Rejects e)"
    from r m e show ?thesis
      using rejected_estimate_throws [OF w]
      by (simp add: try_block_def Let_def getWidgetCacheSync_def getWidgetTypeCacheSync_def
          split: prod.splits)
  qed
  then obtain st where "try_block env = Throws e st" ..
  then show ?thesis
    by (simp add: initializeApp_def render_def)
qed

text \<open>
  C6. Startup is to wait at most 10 seconds for the IndexedDB initialization promises
  and, on a timeout or any initialization failure, to log the problem, mark the
  application as initialized and render it in degraded mode. The code departs from this
  when initializeApp throws outside the wait. In a browser, when the import of a cache
  module fails and initializeCaches rejects, the component is marked initialized and
  the error is logged, but what is rendered is the warning panel with the error
  message, not the application. The same happens when the caches are initialized and
  the IndexedDB promises have resolved after 500 milliseconds, and only the storage
  estimate, made for a log line, rejects.
\<close>

theorem failed_import_replaces_application:
  "isInitialized (initializeApp failed_import_env)
   \<and> init_error (initializeApp failed_import_env)
       = Some ''Failed to fetch dynamically imported module''
   \<and> (ERROR, ''Failed to initialize caches:'') \<in> set (lines (initializeApp failed_import_env))
   \<and> render (initializeApp failed_import_env)
       = WarningPanel ''Failed to fetch dynamically imported module''
   \<and> render (initializeApp failed_import_env) \<noteq> Children
   \<and> waited (initializeApp failed_estimate_env) = 500
   \<and> isInitialized (initializeApp failed_estimate_env)
   \<and> render (initializeApp failed_estimate_env) = WarningPanel ''The operation is not supported''
   \<and> render (initializeApp failed_estimate_env) \<noteq> Children"
proof -
  have a: "env_initializeCaches failed_import_env = Rejects import_failure"
    by (simp add: failed_import_env_def)
  have m: "m_widgetCache loaded_module = Some widgetCache"
    "m_widgetTypeCache loaded_module = Some widgetTypeCache"
    by (simp_all add: loaded_module_def run_def initializeCaches_def initial_state_def
        all_loaded_def Let_def)
  have b: "env_initializeCaches failed_estimate_env = Resolves ()
         \<and> (\<exists>wc wtc. m_widgetCache (env_module failed_estimate_env) = Some wc
               \<and> m_widgetTypeCache (env_module failed_estimate_env) = Some wtc
               \<and> works (env_cacheMap failed_estimate_env wc)
               \<and> works (env_cacheMap failed_estimate_env wtc))
         \<and> env_estimate failed_estimate_env
             = Some (Rejects (TypeError ''The operation is not supported''))"
    using m by (simp add: failed_estimate_env_def example_env_def works_def working_map_def)
  have w: "waited (initializeApp failed_estimate_env) = 500"
    using m by (simp add: initializeApp_def try_block_def failed_estimate_env_def example_env_def
        working_map_def getWidgetCacheSync_def getWidgetTypeCacheSync_def collect_def
        promise_of_def wait_for_def Promise_all_def Promise_race_def diagnostics_def
        inspect_def check_storage_def and_then_def Let_def say_def)
  from thrown_error_shows_panel [of failed_import_env import_failure] a
  have p: "isInitialized (initializeApp failed_import_env)"
    "init_error (initializeApp failed_import_env)
       = Some ''Failed to fetch dynamically imported module''"
    "(ERROR, ''Failed to initialize caches:'') \<in> set (lines (initializeApp failed_import_env))"
    "render (initializeApp failed_import_env)
       = WarningPanel ''Failed to fetch dynamically imported module''"
    by (simp_all add: import_failure_def)
  from thrown_error_shows_panel
    [of failed_estimate_env "TypeError ''The operation is not supported''"] b
  have q: "isInitialized (initializeApp failed_estimate_env)"
    "render (initializeApp failed_estimate_env) = WarningPanel ''The operation is not supported''"
    by simp_all
  from p q w show ?thesis by simp
qed

end
